theory Spec2Isabelle
  imports Main "HOL-Library.Sublist" "HOL-Library.Multiset"
begin

section \<open>Python exceptions\<close>

text \<open>
  The exception classes that the modelled code raises, catches or lets through.
  A function of the source that can raise returns \<open>exn + 'a\<close>, with \<open>Inl\<close> the
  exception. \<open>DoesNotExist m\<close> is the \<open>DoesNotExist\<close> class of the model named \<open>m\<close>
  (each model class has its own); \<open>RequestsConnectionError\<close> is
  \<open>requests.exceptions.ConnectionError\<close>, the class that
  \<open>nextcloud_integration/views.py\<close> imports under the name \<open>ConnectionError\<close>;
  \<open>OperationFailed code\<close> carries the \<open>actual_code\<close> of the WebDAV client's exception;
  \<open>ModuleNotFoundError n\<close> carries the name \<open>n\<close> of the module that was not found.
\<close>

datatype exn =
    TypeError
  | ValueError
  | UnicodeDecodeError
  | BinasciiError
  | OverflowError
  | DoesNotExist string
  | ValidationError
  | KeyError string
  | AssertionError
  | ImportError
  | ModuleNotFoundError string
  | PermissionDenied
  | Http404
  | RequestsConnectionError
  | ConnectTimeout
  | OperationFailed int
  | DatabaseError
  | OtherException string

section \<open>utils/viewcollectives.py\<close>

subsection \<open>ViewCollectiveConfig\<close>

text \<open>
  The request as \<open>is_accessible\<close> reads it: \<open>request.user.is_authenticated\<close> and
  \<open>request.member\<close> (\<open>None\<close> when the user has no member record).
\<close>

record 'm request =
  user_is_authenticated :: bool
  member :: "'m option"

text \<open>
  A config instance: the class attributes of \<open>ViewCollectiveConfig\<close> and the registry
  it was instantiated with (\<open>self.registry\<close>, kept as the registry's namespace).
\<close>

record config =
  name :: "string option"
  icon_class :: string
  url_name :: "string option"
  url_keyword :: "string option"
  order_value :: int
  namespace :: "string option"
  requires_login :: bool
  requires_membership :: bool
  registry :: string

definition is_accessible :: "'a config_scheme \<Rightarrow> ('m, 'b) request_scheme \<Rightarrow> bool" where
  "is_accessible self request =
     (if requires_login self \<and> \<not> user_is_authenticated request then False
      else if requires_membership self \<and> member request = None then False
      else True)"

definition is_enabled :: "'a config_scheme \<Rightarrow> bool" where
  "is_enabled self = True"

subsection \<open>ViewCollectiveRegistry\<close>

text \<open>
  What a module's \<open>__dict__\<close> holds: a class, or something that is not a type.
  A class has an identity, the identities of the classes it derives from (itself
  included, as \<open>issubclass\<close> is reflexive) and a constructor taking the registry.
\<close>

record 'c pyclass =
  class_id :: string
  class_mro :: "string list"
  construct :: "string \<Rightarrow> 'c"

datatype 'c member = NotAType | Class "'c pyclass"

type_synonym 'c module = "(string \<times> 'c member) list"

text \<open>
  The registry object. \<open>configs_cache\<close> is \<open>self._configs\<close>: \<open>None\<close> until the
  \<open>configs\<close> property is first read. \<open>config_class\<close> is the identity of the root
  config class.
\<close>

record 'c registry_obj =
  reg_namespace :: string
  folder_name :: string
  config_class :: string
  configs_cache :: "'c list option"

text \<open>
  The interpreter state that discovery reads: the installed apps
  (\<open>apps.get_app_configs()\<close>, by \<open>app.name\<close>) and \<open>import_module\<close>.
  The dynamically dispatched methods of a config (\<open>is_enabled\<close>, \<open>is_accessible\<close>,
  the attribute \<open>order_value\<close>) are parameters of the functions below; the definitions
  above are what the base class supplies. The extra keyword arguments of
  \<open>is_accessible\<close> are a type parameter: a config class fixes which ones it takes
  (the base class takes none).
\<close>

record 'c py_env =
  installed_apps :: "string list"
  import_module :: "string \<Rightarrow> exn + 'c module"

definition issubclass :: "'c pyclass \<Rightarrow> string \<Rightarrow> bool" where
  "issubclass cls root = (root \<in> set (class_mro cls))"

text \<open>The inner loop of \<open>_get_configs\<close>, over the items of one module.\<close>

fun scan_module ::
  "('c \<Rightarrow> bool) \<Rightarrow> 'c registry_obj \<Rightarrow> 'c module \<Rightarrow> 'c list \<Rightarrow> 'c list" where
  "scan_module enabled self [] configs = configs"
| "scan_module enabled self ((nm, NotAType) # items) configs =
     scan_module enabled self items configs"
| "scan_module enabled self ((nm, Class cls) # items) configs =
     (if issubclass cls (config_class self) \<and> class_id cls \<noteq> config_class self then
        (let config = construct cls (reg_namespace self) in
         scan_module enabled self items
           (if enabled config then configs @ [config] else configs))
      else scan_module enabled self items configs)"

text \<open>\<open>except ModuleNotFoundError\<close>: the clause matches on the class alone.\<close>

fun is_ModuleNotFoundError :: "exn \<Rightarrow> bool" where
  "is_ModuleNotFoundError (ModuleNotFoundError n) = True"
| "is_ModuleNotFoundError e = False"

definition config_module_name :: "string \<Rightarrow> string \<Rightarrow> string" where
  "config_module_name app folder = app @ ''.'' @ folder @ ''.config''"

text \<open>The outer loop of \<open>_get_configs\<close>, over the installed apps.\<close>

fun scan_apps ::
  "('c \<Rightarrow> bool) \<Rightarrow> 'c py_env \<Rightarrow> 'c registry_obj \<Rightarrow> string list \<Rightarrow> 'c list
     \<Rightarrow> exn + 'c list" where
  "scan_apps enabled env self [] configs = Inr configs"
| "scan_apps enabled env self (app # rest) configs =
     (case import_module env (config_module_name app (folder_name self)) of
        Inl e \<Rightarrow>
          (if is_ModuleNotFoundError e then scan_apps enabled env self rest configs
           else Inl e)
      | Inr module \<Rightarrow>
          scan_apps enabled env self rest (scan_module enabled self module configs))"

text \<open>
  Python's \<open>sorted(xs, key=f)\<close>: ascending by key and stable. The keys here are the
  integer \<open>order_value\<close>s.
\<close>

definition py_sorted :: "('c \<Rightarrow> int) \<Rightarrow> 'c list \<Rightarrow> 'c list" where
  "py_sorted key xs = sort_key key xs"

definition get_configs ::
  "('c \<Rightarrow> bool) \<Rightarrow> ('c \<Rightarrow> int) \<Rightarrow> 'c py_env \<Rightarrow> 'c registry_obj \<Rightarrow> exn + 'c list" where
  "get_configs enabled order env self =
     (case scan_apps enabled env self (installed_apps env) [] of
        Inl e \<Rightarrow> Inl e
      | Inr configs \<Rightarrow> Inr (py_sorted order configs))"

text \<open>
  The \<open>configs\<close> property: built on first access, cached in \<open>self._configs\<close>
  afterwards. It returns the list and the registry as it is after the access.
\<close>

definition configs ::
  "('c \<Rightarrow> bool) \<Rightarrow> ('c \<Rightarrow> int) \<Rightarrow> 'c py_env \<Rightarrow> 'c registry_obj
     \<Rightarrow> exn + ('c list \<times> 'c registry_obj)" where
  "configs enabled order env self =
     (case configs_cache self of
        None \<Rightarrow>
          (case get_configs enabled order env self of
             Inl e \<Rightarrow> Inl e
           | Inr cs \<Rightarrow> Inr (cs, self\<lparr>configs_cache := Some cs\<rparr>))
      | Some cs \<Rightarrow> Inr (cs, self))"

text \<open>The loop of \<open>get_applicable_configs\<close>.\<close>

fun collect_applicable ::
  "('c \<Rightarrow> 'r \<Rightarrow> 'k \<Rightarrow> bool) \<Rightarrow> 'r \<Rightarrow> 'k \<Rightarrow> 'c list \<Rightarrow> 'c list \<Rightarrow> 'c list" where
  "collect_applicable accessible request other_kwargs [] applicable_configs =
     applicable_configs"
| "collect_applicable accessible request other_kwargs (config # rest) applicable_configs =
     collect_applicable accessible request other_kwargs rest
       (if accessible config request other_kwargs
        then applicable_configs @ [config] else applicable_configs)"

definition get_applicable_configs ::
  "('c \<Rightarrow> bool) \<Rightarrow> ('c \<Rightarrow> int) \<Rightarrow> ('c \<Rightarrow> 'r \<Rightarrow> 'k \<Rightarrow> bool) \<Rightarrow> 'c py_env
     \<Rightarrow> 'c registry_obj \<Rightarrow> 'r \<Rightarrow> 'k \<Rightarrow> exn + ('c list \<times> 'c registry_obj)" where
  "get_applicable_configs enabled order accessible env self request other_kwargs =
     (case configs enabled order env self of
        Inl e \<Rightarrow> Inl e
      | Inr (cs, self') \<Rightarrow>
          Inr (collect_applicable accessible request other_kwargs cs [], self'))"

subsection \<open>ViewCollectiveViewMixin\<close>

text \<open>
  Python's \<open>config or self.config\<close>, for config objects (which are truthy) and
  \<open>None\<close>.
\<close>

definition py_or :: "'c option \<Rightarrow> 'c option \<Rightarrow> 'c option" where
  "py_or a b = (case a of Some c \<Rightarrow> Some c | None \<Rightarrow> b)"

definition no_config_message :: "string \<Rightarrow> string" where
  "no_config_message class_name =
     class_name @ '' does not have a config linked did you forget to assign it ''
       @ ''in your urls in your config class? ('' @ class_name @ '').as_view(config=self)''"

text \<open>
  \<open>__init__\<close>: \<open>config\<close> is the keyword argument, \<open>class_config\<close> the attribute
  set on the class; the result is the \<open>self.config\<close> of the constructed view.
\<close>

definition ViewCollectiveViewMixin_init ::
  "string \<Rightarrow> 'c option \<Rightarrow> 'c option \<Rightarrow> exn + 'c" where
  "ViewCollectiveViewMixin_init class_name config class_config =
     (case py_or config class_config of
        None \<Rightarrow> Inl (KeyError (no_config_message class_name))
      | Some c \<Rightarrow> Inr c)"

text \<open>
  \<open>dispatch\<close>: the access check, then the next \<open>dispatch\<close> in the class
  hierarchy (\<open>super_dispatch\<close>, a parameter).
\<close>

definition ViewCollectiveViewMixin_dispatch ::
  "('c \<Rightarrow> 'r \<Rightarrow> 'k \<Rightarrow> bool) \<Rightarrow> 'k \<Rightarrow> ('r \<Rightarrow> exn + 'resp) \<Rightarrow> 'c \<Rightarrow> 'r \<Rightarrow> exn + 'resp" where
  "ViewCollectiveViewMixin_dispatch accessible other_check_kwargs super_dispatch config request =
     (if \<not> accessible config request other_check_kwargs then Inl PermissionDenied
      else super_dispatch request)"

text \<open>
  A request served by the view, as the framework's \<open>as_view\<close> entry point does it:
  the view is constructed first, and only then is \<open>dispatch\<close> called on it.
\<close>

definition serve_request ::
  "string \<Rightarrow> 'c option \<Rightarrow> 'c option \<Rightarrow> ('c \<Rightarrow> 'r \<Rightarrow> 'k \<Rightarrow> bool) \<Rightarrow> 'k
     \<Rightarrow> ('r \<Rightarrow> exn + 'resp) \<Rightarrow> 'r \<Rightarrow> exn + 'resp" where
  "serve_request class_name config class_config accessible kw super_dispatch request =
     (case ViewCollectiveViewMixin_init class_name config class_config of
        Inl e \<Rightarrow> Inl e
      | Inr c \<Rightarrow> ViewCollectiveViewMixin_dispatch accessible kw super_dispatch c request)"

section \<open>utils/tokens.py\<close>

subsection \<open>TokenMixinBase\<close>

text \<open>
  The class attributes of a token view, as a subclass configures them (the source's
  \<open>None\<close> placeholders are what subclasses override). \<open>object_class\<close> is the name
  of the model class.
\<close>

record token_view_class =
  fail_template_name :: string
  session_token_name :: string
  object_id_kwarg_name :: string
  object_class :: string
  url_token_name :: string
  token_kwarg_name :: string

text \<open>
  The token generator, an object of the framework's \<open>PasswordResetTokenGenerator\<close>
  family (with one secret, no fallback keys). A token carries the timestamp of
  its creation; \<open>token_timestamp\<close> reads it, and gives \<open>None\<close> for a string that
  is not of the token format. \<open>_make_hash_value(obj, timestamp)\<close> collects the
  validity-affecting fields of the object, and the token for an object at a
  timestamp is computed from the timestamp and that hash value (a keyed digest).
  \<open>timeout\<close> is the number of seconds a token stays valid.
\<close>

record ('o, 'h) token_generator =
  make_hash_value :: "'o \<Rightarrow> int \<Rightarrow> 'h"
  token_of_hash :: "int \<Rightarrow> 'h \<Rightarrow> string"
  token_timestamp :: "string \<Rightarrow> int option"
  timeout :: int

definition make_token_with_timestamp ::
  "('o, 'h) token_generator \<Rightarrow> 'o \<Rightarrow> int \<Rightarrow> string" where
  "make_token_with_timestamp gen obj ts = token_of_hash gen ts (make_hash_value gen obj ts)"

text \<open>
  \<open>check_token(obj, token)\<close> at the time \<open>now\<close> of the request (in seconds): a
  missing or empty token is refused, as is a malformed one, one that is not the
  token of the object at the timestamp it carries, and one whose timestamp lies
  more than \<open>timeout\<close> seconds back.
\<close>

definition check_token ::
  "('o, 'h) token_generator \<Rightarrow> int \<Rightarrow> 'o \<Rightarrow> string option \<Rightarrow> bool" where
  "check_token gen now obj token =
     (case token of
        None \<Rightarrow> False
      | Some t \<Rightarrow>
          (if t = [] then False
           else case token_timestamp gen t of
                  None \<Rightarrow> False
                | Some ts \<Rightarrow>
                    (if make_token_with_timestamp gen obj ts \<noteq> t then False
                     else if now - ts > timeout gen then False
                     else True)))"

text \<open>
  What \<open>get_url_object\<close> calls: \<open>urlsafe_base64_decode(uidb64).decode()\<close>, which
  gives the decoded text or raises, and the manager's \<open>get(pk=uid)\<close>: the field
  converts the text to a key (or raises), and the row with that key is returned;
  when there is none the model's \<open>DoesNotExist\<close> is raised.
\<close>

record ('pk, 'o) orm =
  urlsafe_base64_decode :: "string \<Rightarrow> exn + string"
  to_pk :: "string \<Rightarrow> exn + 'pk"
  rows :: "'pk \<rightharpoonup> 'o"

definition manager_get :: "('pk, 'o) orm \<Rightarrow> string \<Rightarrow> string \<Rightarrow> exn + 'o" where
  "manager_get db model uid =
     (case to_pk db uid of
        Inl e \<Rightarrow> Inl e
      | Inr k \<Rightarrow> (case rows db k of None \<Rightarrow> Inl (DoesNotExist model) | Some obj \<Rightarrow> Inr obj))"

text \<open>
  The classes below \<open>ValueError\<close> that decoding raises: \<open>binascii.Error\<close> and
  \<open>UnicodeDecodeError\<close> derive from it.
\<close>

fun is_ValueError :: "exn \<Rightarrow> bool" where
  "is_ValueError ValueError = True"
| "is_ValueError UnicodeDecodeError = True"
| "is_ValueError BinasciiError = True"
| "is_ValueError e = False"

text \<open>
  The \<open>except\<close> clause of \<open>get_url_object\<close>:
  \<open>(TypeError, ValueError, OverflowError, self.object_class.DoesNotExist, ValidationError)\<close>.
\<close>

definition get_url_object_catches :: "token_view_class \<Rightarrow> exn \<Rightarrow> bool" where
  "get_url_object_catches self e =
     (e = TypeError \<or> is_ValueError e \<or> e = OverflowError
      \<or> e = DoesNotExist (object_class self) \<or> e = ValidationError)"

definition get_url_object ::
  "token_view_class \<Rightarrow> ('pk, 'o) orm \<Rightarrow> string \<Rightarrow> exn + 'o option" where
  "get_url_object self db uidb64 =
     (case (case urlsafe_base64_decode db uidb64 of
              Inl e \<Rightarrow> Inl e
            | Inr uid \<Rightarrow> manager_get db (object_class self) uid) of
        Inl e \<Rightarrow> (if get_url_object_catches self e then Inr None else Inl e)
      | Inr url_object \<Rightarrow> Inr (Some url_object))"

text \<open>
  The attributes a token view sets on itself during \<open>dispatch\<close>, with the session
  of its request.
\<close>

record 'o token_view =
  validlink :: bool
  url_object :: "'o option"
  session :: "string \<rightharpoonup> string"

text \<open>
  What a \<open>dispatch\<close> returns: the rendered failure template, a redirect, or whatever
  the wrapped view's \<open>dispatch\<close> (\<open>super().dispatch\<close>, a parameter that sees the view
  and the URL keyword arguments) returns.
\<close>

datatype 'r response = Render string | HttpResponseRedirect string | Wrapped 'r

definition TokenMixinBase_dispatch ::
  "token_view_class \<Rightarrow> ('o token_view \<Rightarrow> (string \<rightharpoonup> string) \<Rightarrow> 'r) \<Rightarrow> 'o token_view \<Rightarrow> bool
     \<Rightarrow> (string \<rightharpoonup> string) \<Rightarrow> 'r response" where
  "TokenMixinBase_dispatch self super_dispatch view validlink' kwargs =
     (if \<not> validlink' then Render (fail_template_name self)
      else Wrapped (super_dispatch view kwargs))"

subsection \<open>UrlTokenMixin\<close>

text \<open>
  Python's \<open>s.replace(old, new)\<close>: every non-overlapping occurrence of \<open>old\<close>, from
  the left; an empty \<open>old\<close> matches before every character and at the end.
  \<open>replace_scan\<close> walks the string, \<open>skip\<close> counting the characters of a match
  still to pass over.
\<close>

fun replace_scan :: "string \<Rightarrow> string \<Rightarrow> nat \<Rightarrow> string \<Rightarrow> string" where
  "replace_scan old new skip [] = []"
| "replace_scan old new (Suc k) (c # cs) = replace_scan old new k cs"
| "replace_scan old new 0 (c # cs) =
     (if prefix old (c # cs) then new @ replace_scan old new (length old - 1) cs
      else c # replace_scan old new 0 cs)"

definition py_replace :: "string \<Rightarrow> string \<Rightarrow> string \<Rightarrow> string" where
  "py_replace s old new =
     (if old = [] then new @ concat (map (\<lambda>c. c # new) s)
      else replace_scan old new 0 s)"

definition UrlTokenMixin_dispatch ::
  "token_view_class \<Rightarrow> ('pk, 'o) orm \<Rightarrow> ('o, 'h) token_generator \<Rightarrow> int
     \<Rightarrow> ('o token_view \<Rightarrow> (string \<rightharpoonup> string) \<Rightarrow> 'r)
     \<Rightarrow> string \<Rightarrow> (string \<rightharpoonup> string) \<Rightarrow> (string \<rightharpoonup> string)
     \<Rightarrow> exn + ('r response \<times> 'o token_view)" where
  "UrlTokenMixin_dispatch self db gen now super_dispatch path request_session kwargs =
     (case (kwargs (object_id_kwarg_name self), kwargs (token_kwarg_name self)) of
        (Some uidb64, Some token) \<Rightarrow>
          (case get_url_object self db uidb64 of
             Inl e \<Rightarrow> Inl e
           | Inr obj \<Rightarrow>
              (let view = \<lparr>validlink = False, url_object = obj, session = request_session\<rparr>;
                   invalid = Inr (TokenMixinBase_dispatch self super_dispatch view False kwargs, view)
               in case obj of
                    None \<Rightarrow> invalid
                  | Some url_obj \<Rightarrow>
                     (if token = url_token_name self then
                        (let session_token = request_session (session_token_name self) in
                         if check_token gen now url_obj session_token then
                           (let view' = view\<lparr>validlink := True\<rparr> in
                            Inr (TokenMixinBase_dispatch self super_dispatch view' True kwargs,
                                 view'))
                         else invalid)
                      else
                        (if check_token gen now url_obj (Some token) then
                           (let view' = view\<lparr>session :=
                                   request_session(session_token_name self \<mapsto> token)\<rparr>;
                                redirect_url = py_replace path token (url_token_name self)
                            in Inr (HttpResponseRedirect redirect_url, view'))
                         else invalid))))
      | _ \<Rightarrow> Inl AssertionError)"

subsection \<open>SessionTokenMixin\<close>

definition SessionTokenMixin_dispatch ::
  "token_view_class \<Rightarrow> ('pk, 'o) orm \<Rightarrow> ('o, 'h) token_generator \<Rightarrow> int
     \<Rightarrow> ('o token_view \<Rightarrow> (string \<rightharpoonup> string) \<Rightarrow> 'r)
     \<Rightarrow> (string \<rightharpoonup> string) \<Rightarrow> (string \<rightharpoonup> string)
     \<Rightarrow> exn + ('r response \<times> 'o token_view)" where
  "SessionTokenMixin_dispatch self db gen now super_dispatch request_session kwargs =
     (case kwargs (object_id_kwarg_name self) of
        Some uidb64 \<Rightarrow>
          (case get_url_object self db uidb64 of
             Inl e \<Rightarrow> Inl e
           | Inr obj \<Rightarrow>
              (let view = \<lparr>validlink = False, url_object = obj, session = request_session\<rparr>;
                   invalid = Inr (TokenMixinBase_dispatch self super_dispatch view False kwargs, view)
               in case obj of
                    None \<Rightarrow> invalid
                  | Some url_obj \<Rightarrow>
                     (let session_token = request_session (session_token_name self) in
                      if check_token gen now url_obj session_token then
                        (let view' = view\<lparr>validlink := True\<rparr> in
                         Inr (TokenMixinBase_dispatch self super_dispatch view' True kwargs,
                              view'))
                      else invalid)))
      | None \<Rightarrow> Inl AssertionError)"

subsection \<open>The states of a link\<close>

text \<open>
  The exceptions that decoding the URL segment raises when it fails (a segment that
  is not a string, is not base64 or is not text), and those that converting the
  decoded text to a key raises (not a number, out of range, rejected by the field).
\<close>

definition decode_failure :: "exn \<Rightarrow> bool" where
  "decode_failure e = (e = TypeError \<or> e = ValueError \<or> e = BinasciiError \<or> e = UnicodeDecodeError)"

definition key_failure :: "exn \<Rightarrow> bool" where
  "key_failure e = (e = TypeError \<or> e = ValueError \<or> e = OverflowError \<or> e = ValidationError)"

text \<open>
  A link is invalid when no object was resolved or the token fails validation: the
  token of the URL, or the token kept in the session when the URL carries the
  placeholder. It is valid when the object is resolved and the session's token
  passes; for a \<open>UrlTokenMixin\<close> view the URL then carries the placeholder.
\<close>

definition url_link_invalid ::
  "token_view_class \<Rightarrow> ('o, 'h) token_generator \<Rightarrow> int \<Rightarrow> 'o option \<Rightarrow> string
     \<Rightarrow> (string \<rightharpoonup> string) \<Rightarrow> bool" where
  "url_link_invalid self gen now obj token sess =
     (case obj of
        None \<Rightarrow> True
      | Some url_obj \<Rightarrow>
          \<not> check_token gen now url_obj
              (if token = url_token_name self then sess (session_token_name self) else Some token))"

definition url_link_valid ::
  "token_view_class \<Rightarrow> ('o, 'h) token_generator \<Rightarrow> int \<Rightarrow> 'o option \<Rightarrow> string
     \<Rightarrow> (string \<rightharpoonup> string) \<Rightarrow> bool" where
  "url_link_valid self gen now obj token sess =
     (case obj of
        None \<Rightarrow> False
      | Some url_obj \<Rightarrow>
          token = url_token_name self \<and> check_token gen now url_obj (sess (session_token_name self)))"

definition session_link_valid ::
  "token_view_class \<Rightarrow> ('o, 'h) token_generator \<Rightarrow> int \<Rightarrow> 'o option
     \<Rightarrow> (string \<rightharpoonup> string) \<Rightarrow> bool" where
  "session_link_valid self gen now obj sess =
     (case obj of
        None \<Rightarrow> False
      | Some url_obj \<Rightarrow> check_token gen now url_obj (sess (session_token_name self)))"

section \<open>nextcloud_integration/views.py\<close>

subsection \<open>Model instances and tables\<close>

text \<open>
  The model classes \<open>NCFolder\<close> and \<open>NCFile\<close> are declared outside the files at
  hand; the views read the fields \<open>id\<close>, \<open>slug\<close>, \<open>is_missing\<close>, \<open>folder\<close> (of a
  folder: its remote path), \<open>file\<close>, \<open>file_name\<close> and the foreign key \<open>folder_id\<close>
  (of a file). An instance is therefore a valuation of field names, whatever the
  other fields are; a table holds the stored rows by primary key.
\<close>

datatype val = VNone | VBool bool | VInt int | VStr string

type_synonym model_instance = "string \<Rightarrow> val"

type_synonym table = "(int \<times> model_instance) list"

text \<open>
  \<open>instance.save(update_fields=fs)\<close>: an update of the stored row with the
  instance's primary key that writes the listed fields only. Without a primary key
  it raises \<open>ValueError\<close>; when no row is affected, \<open>DatabaseError\<close>.
\<close>

definition write_fields :: "string list \<Rightarrow> model_instance \<Rightarrow> model_instance \<Rightarrow> model_instance" where
  "write_fields update_fields inst row = (\<lambda>f. if f \<in> set update_fields then inst f else row f)"

definition save_update_fields :: "string list \<Rightarrow> model_instance \<Rightarrow> table \<Rightarrow> exn + table" where
  "save_update_fields update_fields inst tbl =
     (case inst ''id'' of
        VInt pk \<Rightarrow>
          (case map_of tbl pk of
             None \<Rightarrow> Inl DatabaseError
           | Some row \<Rightarrow>
               Inr (map (\<lambda>(k, r). if k = pk then (k, write_fields update_fields inst r)
                                  else (k, r)) tbl))
      | _ \<Rightarrow> Inl ValueError)"

subsection \<open>NextcloudConnectionViewMixin\<close>

text \<open>
  The remote client: \<open>download\<close> of a file instance and \<open>exists\<close> of a remote
  resource. Each is a request to the remote storage and may raise.
\<close>

record remote_client =
  download :: "model_instance \<Rightarrow> exn + string"
  exists_remote :: "val \<Rightarrow> exn + bool"

datatype nc_response =
    TemplateResponse string "exn option" int
  | FileResponse string val
  | RedirectToFolderView val

text \<open>
  \<open>except ConnectionError\<close> (the class of \<open>requests\<close>, with its subclasses) and
  \<open>except OperationFailed\<close>.
\<close>

fun is_ConnectionError :: "exn \<Rightarrow> bool" where
  "is_ConnectionError RequestsConnectionError = True"
| "is_ConnectionError ConnectTimeout = True"
| "is_ConnectionError e = False"

fun is_OperationFailed :: "exn \<Rightarrow> bool" where
  "is_OperationFailed (OperationFailed code) = True"
| "is_OperationFailed e = False"

fun actual_code :: "exn \<Rightarrow> int option" where
  "actual_code (OperationFailed code) = Some code"
| "actual_code e = None"

definition failed_connection_template :: string where
  "failed_connection_template = ''nextcloud_integration/failed_nextcloud_link.html''"

text \<open>
  A \<open>dispatch\<close> or handler returns its result (a response, or the exception it
  raised) together with the view as it has become: what it stored stays stored when
  it raises.
\<close>

definition nextcloud_connection_failed ::
  "exn option \<Rightarrow> 'v \<Rightarrow> (exn + nc_response) \<times> 'v" where
  "nextcloud_connection_failed error view =
     (Inr (TemplateResponse failed_connection_template error 424), view)"

definition nextcloud_operation_failed :: "exn \<Rightarrow> 'v \<Rightarrow> (exn + nc_response) \<times> 'v" where
  "nextcloud_operation_failed error view = nextcloud_connection_failed None view"

text \<open>
  \<open>dispatch\<close> of the mixin; \<open>super_dispatch\<close> is the next \<open>dispatch\<close> in the class
  hierarchy, \<open>operation_failed\<close> the view's \<open>nextcloud_operation_failed\<close> (a subclass
  may override it).
\<close>

definition NextcloudConnectionViewMixin_dispatch ::
  "('v \<Rightarrow> (exn + nc_response) \<times> 'v) \<Rightarrow> (exn \<Rightarrow> 'v \<Rightarrow> (exn + nc_response) \<times> 'v)
     \<Rightarrow> 'v \<Rightarrow> (exn + nc_response) \<times> 'v" where
  "NextcloudConnectionViewMixin_dispatch super_dispatch operation_failed view =
     (case super_dispatch view of
        (Inr response, view') \<Rightarrow> (Inr response, view')
      | (Inl error, view') \<Rightarrow>
          (if is_ConnectionError error then nextcloud_connection_failed (Some error) view'
           else if is_OperationFailed error then operation_failed error view'
           else (Inl error, view')))"

subsection \<open>DownloadFileview\<close>

text \<open>
  The view with what it reaches: the two tables, \<open>self.file\<close> (unset before
  \<open>get\<close>), the folder instance that \<open>self.file.folder\<close> loads on first access
  and keeps, and the messages queued on the request.
\<close>

record download_view =
  folders :: table
  files :: table
  file_attr :: "model_instance option"
  folder_cache :: "model_instance option"
  messages :: "string list"

definition folder_slug_of :: "table \<Rightarrow> model_instance \<Rightarrow> val" where
  "folder_slug_of folder_tbl file =
     (case file ''folder_id'' of
        VInt k \<Rightarrow> (case map_of folder_tbl k of Some d \<Rightarrow> d ''slug'' | None \<Rightarrow> VNone)
      | _ \<Rightarrow> VNone)"

text \<open>
  \<open>get_object_or_404(NCFile, folder__slug=..., slug=...)\<close>: the one matching row,
  \<open>Http404\<close> when there is none.
\<close>

definition get_file_or_404 :: "download_view \<Rightarrow> string \<Rightarrow> string \<Rightarrow> exn + model_instance" where
  "get_file_or_404 view folder_slug file_slug =
     (case filter (\<lambda>(k, f). f ''slug'' = VStr file_slug
                       \<and> folder_slug_of (folders view) f = VStr folder_slug) (files view) of
        [] \<Rightarrow> Inl Http404
      | [(k, f)] \<Rightarrow> Inr f
      | _ \<Rightarrow> Inl (OtherException ''MultipleObjectsReturned''))"

definition DownloadFileview_get ::
  "remote_client \<Rightarrow> string \<Rightarrow> string \<Rightarrow> download_view \<Rightarrow> (exn + nc_response) \<times> download_view" where
  "DownloadFileview_get client folder_slug file_slug view =
     (case get_file_or_404 view folder_slug file_slug of
        Inl e \<Rightarrow> (Inl e, view)
      | Inr file \<Rightarrow>
          (let view' = view\<lparr>file_attr := Some file, folder_cache := None\<rparr> in
           case download client file of
             Inl e \<Rightarrow> (Inl e, view')
           | Inr file_data \<Rightarrow> (Inr (FileResponse file_data (file ''file_name'')), view')))"

text \<open>\<open>self.file.folder\<close>: the kept instance, or the row the foreign key points to.\<close>

definition related_folder ::
  "download_view \<Rightarrow> model_instance \<Rightarrow> (exn + model_instance) \<times> download_view" where
  "related_folder view file =
     (case folder_cache view of
        Some d \<Rightarrow> (Inr d, view)
      | None \<Rightarrow>
          (case file ''folder_id'' of
             VInt k \<Rightarrow>
               (case map_of (folders view) k of
                  Some d \<Rightarrow> (Inr d, view\<lparr>folder_cache := Some d\<rparr>)
                | None \<Rightarrow> (Inl (DoesNotExist ''NCFolder''), view))
           | _ \<Rightarrow> (Inl (OtherException ''AttributeError''), view)))"

definition folder_missing_msg :: string where
  "folder_missing_msg =
     ''The folder could not be retrieved as it has been moved or renamed. ''
       @ ''It is unknown when it will be fixed as it needs to be addressed manually.''"

definition file_missing_msg :: string where
  "file_missing_msg =
     ''The file could not be retrieved as it has been moved or renamed. ''
       @ ''It is unknown when it will be fixed as it needs to be addressed manually.''"

definition unexpected_msg :: string where
  "unexpected_msg =
     ''Something unexpected occurred. Please inform the UUPS is this keeps occuring.''"

text \<open>
  The body of \<open>if error.actual_code == 404:\<close> in \<open>nextcloud_operation_failed\<close>; it
  gives the value of \<open>msg\<close>.
\<close>

definition repair_missing ::
  "remote_client \<Rightarrow> model_instance \<Rightarrow> download_view \<Rightarrow> (exn + string option) \<times> download_view" where
  "repair_missing client file view =
     (case related_folder view file of
        (Inl e, view1) \<Rightarrow> (Inl e, view1)
      | (Inr folder, view1) \<Rightarrow>
          (case exists_remote client (folder ''folder'') of
             Inl e \<Rightarrow> (Inl e, view1)
           | Inr False \<Rightarrow>
               (let folder' = folder(''is_missing'' := VBool True);
                    view2 = view1\<lparr>folder_cache := Some folder'\<rparr>
                in case save_update_fields [''is_missing''] folder' (folders view2) of
                     Inl e \<Rightarrow> (Inl e, view2)
                   | Inr tbl \<Rightarrow> (Inr (Some folder_missing_msg), view2\<lparr>folders := tbl\<rparr>))
           | Inr True \<Rightarrow>
               (case exists_remote client (file ''file'') of
                  Inl e \<Rightarrow> (Inl e, view1)
                | Inr False \<Rightarrow>
                    (let file' = file(''is_missing'' := VBool True);
                         view2 = view1\<lparr>file_attr := Some file'\<rparr>
                     in case save_update_fields [''is_missing''] file' (files view2) of
                          Inl e \<Rightarrow> (Inl e, view2)
                        | Inr tbl \<Rightarrow> (Inr (Some file_missing_msg), view2\<lparr>files := tbl\<rparr>))
                | Inr True \<Rightarrow> (Inr None, view1))))"

text \<open>The rest of the handler: the message is queued and the redirect built.\<close>

definition report_and_redirect ::
  "string option \<Rightarrow> download_view \<Rightarrow> (exn + nc_response) \<times> download_view" where
  "report_and_redirect msg view =
     (let msg' = (case msg of None \<Rightarrow> unexpected_msg | Some m \<Rightarrow> m);
          view1 = view\<lparr>messages := messages view @ [msg']\<rparr>
      in case file_attr view1 of
           None \<Rightarrow> (Inl (OtherException ''AttributeError''), view1)
         | Some file \<Rightarrow>
             (case related_folder view1 file of
                (Inl e, view2) \<Rightarrow> (Inl e, view2)
              | (Inr folder, view2) \<Rightarrow> (Inr (RedirectToFolderView (folder ''slug'')), view2)))"

definition DownloadFileview_nextcloud_operation_failed ::
  "remote_client \<Rightarrow> exn \<Rightarrow> download_view \<Rightarrow> (exn + nc_response) \<times> download_view" where
  "DownloadFileview_nextcloud_operation_failed client error view =
     (if actual_code error = Some 404 then
        (case file_attr view of
           None \<Rightarrow> (Inl (OtherException ''AttributeError''), view)
         | Some file \<Rightarrow>
             (case repair_missing client file view of
                (Inl e, view') \<Rightarrow> (Inl e, view')
              | (Inr msg, view') \<Rightarrow> report_and_redirect msg view'))
      else report_and_redirect None view)"

text \<open>A GET request to the view: the mixin's \<open>dispatch\<close> around \<open>get\<close>.\<close>

definition DownloadFileview_dispatch ::
  "remote_client \<Rightarrow> string \<Rightarrow> string \<Rightarrow> download_view \<Rightarrow> (exn + nc_response) \<times> download_view" where
  "DownloadFileview_dispatch client folder_slug file_slug view =
     NextcloudConnectionViewMixin_dispatch
       (DownloadFileview_get client folder_slug file_slug)
       (DownloadFileview_nextcloud_operation_failed client) view"

section \<open>Concrete installations\<close>

subsection \<open>A registry with two configs\<close>

text \<open>
  Two apps with a config module each, discovered in the order \<open>committees\<close>,
  \<open>inventory\<close>; a third app, \<open>core\<close>, has no config module. The config of
  \<open>committees\<close> has \<open>order_value\<close> 10 (the default), that of \<open>inventory\<close> 5.
\<close>

definition base_config :: "string \<Rightarrow> config" where
  "base_config reg =
     \<lparr>name = None, icon_class = [], url_name = None, url_keyword = None,
      order_value = 10, namespace = None, requires_login = True,
      requires_membership = True, registry = reg\<rparr>"

definition committee_config :: "string \<Rightarrow> config" where
  "committee_config reg = (base_config reg)\<lparr>name := Some ''Members''\<rparr>"

definition inventory_config :: "string \<Rightarrow> config" where
  "inventory_config reg = (base_config reg)\<lparr>name := Some ''Items'', order_value := 5\<rparr>"

definition public_config :: "string \<Rightarrow> config" where
  "public_config reg =
     (base_config reg)\<lparr>name := Some ''Calendar'', requires_login := False,
       requires_membership := False\<rparr>"

definition config_root :: "config pyclass" where
  "config_root =
     \<lparr>class_id = ''ViewCollectiveConfig'', class_mro = [''ViewCollectiveConfig''],
      construct = base_config\<rparr>"

definition committee_class :: "config pyclass" where
  "committee_class =
     \<lparr>class_id = ''MemberConfig'',
      class_mro = [''MemberConfig'', ''ViewCollectiveConfig''],
      construct = committee_config\<rparr>"

definition inventory_class :: "config pyclass" where
  "inventory_class =
     \<lparr>class_id = ''InventoryConfig'',
      class_mro = [''InventoryConfig'', ''ViewCollectiveConfig''],
      construct = inventory_config\<rparr>"

definition two_app_registry :: "config registry_obj" where
  "two_app_registry =
     \<lparr>reg_namespace = ''committees'', folder_name = ''committee_pages'',
      config_class = ''ViewCollectiveConfig'', configs_cache = None\<rparr>"

definition two_app_env :: "config py_env" where
  "two_app_env =
     \<lparr>installed_apps = [''core'', ''committees'', ''inventory''],
      import_module = (\<lambda>n.
        if n = ''committees.committee_pages.config'' then
          Inr [(''path'', NotAType), (''ViewCollectiveConfig'', Class config_root),
               (''MemberConfig'', Class committee_class)]
        else if n = ''inventory.committee_pages.config'' then
          Inr [(''InventoryConfig'', Class inventory_class)]
        else Inl (ModuleNotFoundError n))\<rparr>"

text \<open>
  The same installation, except that the config module of \<open>committees\<close> exists and
  its body imports a module that is not installed: importing it raises
  \<open>ModuleNotFoundError\<close> for that other module.
\<close>

definition broken_import_env :: "config py_env" where
  "broken_import_env =
     two_app_env\<lparr>import_module := (\<lambda>n.
        if n = ''committees.committee_pages.config''
        then Inl (ModuleNotFoundError ''icalendar'')
        else import_module two_app_env n)\<rparr>"

text \<open>
  What \<open>import_module\<close> raises when the config submodule of an app is absent: the
  error names the submodule, or the package that should hold it.
\<close>

definition submodule_absent :: "string \<Rightarrow> string \<Rightarrow> exn \<Rightarrow> bool" where
  "submodule_absent app folder e =
     (e = ModuleNotFoundError (config_module_name app folder)
      \<or> e = ModuleNotFoundError (app @ ''.'' @ folder))"

subsection \<open>A token view for linking an account\<close>

text \<open>
  A member object, a generator whose hash value is the e-mail address and the
  \<open>linked\<close> flag (linking the account invalidates the token), whose tokens all
  carry the timestamp 100 and stay valid for three days, a view class and a
  table in which the URL segment \<open>MQ\<close> decodes to the key of the stored member.
\<close>

record member_obj =
  member_pk :: int
  email :: string
  linked :: bool

definition link_view :: token_view_class where
  "link_view =
     \<lparr>fail_template_name = ''core/user_accounts/link_fail.html'',
      session_token_name = ''_link_account_token'',
      object_id_kwarg_name = ''uidb64'',
      object_class = ''Member'',
      url_token_name = ''link-account'',
      token_kwarg_name = ''token''\<rparr>"

definition member_generator :: "(member_obj, string \<times> bool) token_generator" where
  "member_generator =
     \<lparr>make_hash_value = (\<lambda>m ts. (email m, linked m)),
      token_of_hash = (\<lambda>ts h. (if snd h then ''tl-'' else ''tk-'') @ fst h),
      token_timestamp = (\<lambda>t. if prefix ''t'' t then Some 100 else None),
      timeout = 259200\<rparr>"

definition alice :: member_obj where
  "alice = \<lparr>member_pk = 1, email = ''alice@uu.nl'', linked = False\<rparr>"

definition member_orm :: "member_obj \<Rightarrow> (int, member_obj) orm" where
  "member_orm row1 =
     \<lparr>urlsafe_base64_decode =
        (\<lambda>s. if s = ''MQ'' then Inr ''1'' else if s = ''OTk'' then Inr ''99''
             else Inl ValueError),
      to_pk = (\<lambda>s. if s = ''1'' then Inr 1 else if s = ''99'' then Inr 99 else Inl ValueError),
      rows = [1 \<mapsto> row1]\<rparr>"

definition link_kwargs :: "string \<Rightarrow> (string \<rightharpoonup> string)" where
  "link_kwargs token = [''uidb64'' \<mapsto> ''MQ'', ''token'' \<mapsto> token]"

definition link_form :: "member_obj token_view \<Rightarrow> (string \<rightharpoonup> string) \<Rightarrow> string" where
  "link_form view kwargs = ''core/user_accounts/link_form.html''"

subsection \<open>A stored folder with one file\<close>

definition folder_row :: model_instance where
  "folder_row =
     (\<lambda>f. if f = ''id'' then VInt 1
          else if f = ''slug'' then VStr ''minutes''
          else if f = ''folder'' then VStr ''/Board/Minutes''
          else if f = ''is_missing'' then VBool False
          else if f = ''display_name'' then VStr ''Board minutes''
          else VNone)"

definition file_row :: model_instance where
  "file_row =
     (\<lambda>f. if f = ''id'' then VInt 7
          else if f = ''slug'' then VStr ''agenda''
          else if f = ''file'' then VStr ''/Board/Minutes/agenda.xlsx''
          else if f = ''file_name'' then VStr ''agenda.xlsx''
          else if f = ''folder_id'' then VInt 1
          else if f = ''is_missing'' then VBool False
          else VNone)"

definition stored_view :: download_view where
  "stored_view =
     \<lparr>folders = [(1, folder_row)], files = [(7, file_row)], file_attr = None,
      folder_cache = None, messages = []\<rparr>"

text \<open>A remote where the file has been renamed: the download fails with 404.\<close>

definition renamed_client :: remote_client where
  "renamed_client =
     \<lparr>download = (\<lambda>f. Inl (OperationFailed 404)),
      exists_remote = (\<lambda>p. Inr (p = VStr ''/Board/Minutes''))\<rparr>"

text \<open>A remote where the whole folder has been removed.\<close>

definition removed_client :: remote_client where
  "removed_client =
     \<lparr>download = (\<lambda>f. Inl (OperationFailed 404)),
      exists_remote = (\<lambda>p. Inr False)\<rparr>"

text \<open>
  A remote that answers the download with 404 and then stops answering: the
  existence check raises the connection error.
\<close>

definition dropping_client :: remote_client where
  "dropping_client =
     \<lparr>download = (\<lambda>f. Inl (OperationFailed 404)),
      exists_remote = (\<lambda>p. Inl RequestsConnectionError)\<rparr>"

section \<open>Properties of the registry\<close>

lemma collect_applicable_filter:
  "collect_applicable accessible request kw cs acc =
     acc @ filter (\<lambda>c. accessible c request kw) cs"
  by (induction cs arbitrary: acc) simp_all

text \<open>
  C1. For every registry state, request and extra-filter context,
  \<open>get_applicable_configs\<close> returns exactly the configs of \<open>configs\<close> whose
  accessibility predicate holds for that request and context, in the order they have
  in \<open>configs\<close>: the result is \<open>configs\<close> filtered by the predicate. (When building
  \<open>configs\<close> raises, the exception is what the call produces.)
\<close>

theorem get_applicable_configs_exact:
  "get_applicable_configs enabled order accessible env self request other_kwargs =
     (case configs enabled order env self of
        Inl e \<Rightarrow> Inl e
      | Inr (cs, self') \<Rightarrow> Inr (filter (\<lambda>c. accessible c request other_kwargs) cs, self'))"
  by (simp add: get_applicable_configs_def collect_applicable_filter split: sum.splits)


lemma get_applicable_configs_anonymous:
  "get_applicable_configs is_enabled order_value (\<lambda>c r (kw :: unit). is_accessible c r)
     two_app_env
     (two_app_registry\<lparr>configs_cache :=
        Some [committee_config ''committees'', public_config ''committees'']\<rparr>)
     \<lparr>user_is_authenticated = False, member = (None :: unit option)\<rparr> () =
   Inr ([public_config ''committees''],
        two_app_registry\<lparr>configs_cache :=
          Some [committee_config ''committees'', public_config ''committees'']\<rparr>)"
  by (simp add: get_applicable_configs_def configs_def is_accessible_def
      committee_config_def public_config_def base_config_def)

lemma scan_module_append:
  "scan_module enabled self items acc = acc @ scan_module enabled self items []"
proof (induction items arbitrary: acc)
  case Nil
  then show ?case by simp
next
  case (Cons item items)
  obtain nm m where item: "item = (nm, m)" by (cases item)
  show ?case
  proof (cases m)
    case NotAType
    with item Cons.IH[of acc] show ?thesis by simp
  next
    case (Class cls)
    let ?c = "construct cls (reg_namespace self)"
    have "scan_module enabled self items (acc @ [?c]) =
            acc @ scan_module enabled self items [?c]"
      using Cons.IH[of "acc @ [?c]"] Cons.IH[of "[?c]"] by simp
    with item Class Cons.IH[of acc] show ?thesis by (simp add: Let_def)
  qed
qed

lemma scan_apps_append:
  "scan_apps enabled env self apps acc =
     (case scan_apps enabled env self apps [] of
        Inl e \<Rightarrow> Inl e | Inr ds \<Rightarrow> Inr (acc @ ds))"
proof (induction apps arbitrary: acc)
  case Nil
  then show ?case by simp
next
  case (Cons app rest)
  show ?case
  proof (cases "import_module env (config_module_name app (folder_name self))")
    case (Inl e)
    then show ?thesis using Cons.IH[of acc] by simp
  next
    case (Inr m)
    have "scan_apps enabled env self rest (scan_module enabled self m acc) =
            (case scan_apps enabled env self rest [] of
               Inl e \<Rightarrow> Inl e
             | Inr ds \<Rightarrow> Inr (acc @ scan_module enabled self m [] @ ds))"
      using Cons.IH[of "scan_module enabled self m acc"]
            scan_module_append[of enabled self m acc]
      by (simp split: sum.splits)
    moreover have "scan_apps enabled env self rest (scan_module enabled self m []) =
            (case scan_apps enabled env self rest [] of
               Inl e \<Rightarrow> Inl e
             | Inr ds \<Rightarrow> Inr (scan_module enabled self m [] @ ds))"
      using Cons.IH[of "scan_module enabled self m []"] by simp
    ultimately show ?thesis using Inr by (simp split: sum.splits)
  qed
qed

lemma sorted_earlier:
  assumes "sorted (map f cs)" "a \<in> set cs" "b \<in> set cs" "f a < (f b :: int)"
  shows "\<exists>i j. i < j \<and> j < length cs \<and> cs ! i = a \<and> cs ! j = b"
proof -
  from assms(2) obtain i where i: "i < length cs" "cs ! i = a"
    by (auto simp: in_set_conv_nth)
  from assms(3) obtain j where j: "j < length cs" "cs ! j = b"
    by (auto simp: in_set_conv_nth)
  have "i < j"
  proof (rule ccontr)
    assume "\<not> i < j"
    then have "j \<le> i" by simp
    with assms(1) i(1) have "map f cs ! j \<le> map f cs ! i"
      by (simp add: sorted_iff_nth_mono)
    with i j assms(4) show False by simp
  qed
  with i j show ?thesis by blast
qed

text \<open>
  C2. Whenever discovery succeeds with the enabled configs \<open>discovered\<close> (in the order
  the loops found them), \<open>_get_configs\<close> returns a list that is non-decreasing in
  \<open>order_value\<close>, holds the same configs, and keeps the configs of any one
  \<open>order_value\<close> in discovery order; so a config of smaller \<open>order_value\<close> (5, say)
  stands before one of larger \<open>order_value\<close> (10), whichever was discovered first.
\<close>

theorem get_configs_sorted_stable:
  assumes "scan_apps enabled env self (installed_apps env) [] = Inr discovered"
  shows "\<exists>cs. get_configs enabled order env self = Inr cs
           \<and> sorted (map order cs)
           \<and> mset cs = mset discovered
           \<and> (\<forall>k. filter (\<lambda>c. order c = k) cs = filter (\<lambda>c. order c = k) discovered)
           \<and> (\<forall>a b. a \<in> set discovered \<and> b \<in> set discovered \<and> order a < order b \<longrightarrow>
                  (\<exists>i j. i < j \<and> j < length cs \<and> cs ! i = a \<and> cs ! j = b))"
proof -
  let ?cs = "py_sorted order discovered"
  have res: "get_configs enabled order env self = Inr ?cs"
    using assms by (simp add: get_configs_def)
  have srt: "sorted (map order ?cs)"
    by (simp add: py_sorted_def)
  have ms: "mset ?cs = mset discovered"
    by (simp add: py_sorted_def)
  have stable: "\<forall>k. filter (\<lambda>c. order c = k) ?cs = filter (\<lambda>c. order c = k) discovered"
    by (simp add: py_sorted_def sort_key_stable)
  have same: "set ?cs = set discovered"
    by (simp add: py_sorted_def)
  have before: "\<forall>a b. a \<in> set discovered \<and> b \<in> set discovered \<and> order a < order b \<longrightarrow>
                  (\<exists>i j. i < j \<and> j < length ?cs \<and> ?cs ! i = a \<and> ?cs ! j = b)"
    using sorted_earlier[OF srt] same by blast
  from res srt ms stable before show ?thesis by blast
qed

lemma two_app_discovered:
  "scan_apps is_enabled two_app_env two_app_registry (installed_apps two_app_env) [] =
     Inr [committee_config ''committees'', inventory_config ''committees'']"
  by code_simp

theorem get_configs_sorted_stable_witness:
  "scan_apps is_enabled two_app_env two_app_registry (installed_apps two_app_env) [] =
     Inr [committee_config ''committees'', inventory_config ''committees'']
   \<and> (\<exists>cs. get_configs is_enabled order_value two_app_env two_app_registry = Inr cs
           \<and> sorted (map order_value cs)
           \<and> mset cs = mset [committee_config ''committees'', inventory_config ''committees''])
   \<and> order_value (inventory_config ''committees'') = 5
   \<and> order_value (committee_config ''committees'') = 10
   \<and> get_configs is_enabled order_value two_app_env two_app_registry =
       Inr [inventory_config ''committees'', committee_config ''committees'']"
proof -
  note general = get_configs_sorted_stable[OF two_app_discovered, of order_value]
  have ord: "order_value (inventory_config ''committees'') = 5"
            "order_value (committee_config ''committees'') = 10"
    by (simp_all add: inventory_config_def committee_config_def base_config_def)
  have run: "get_configs is_enabled order_value two_app_env two_app_registry =
               Inr [inventory_config ''committees'', committee_config ''committees'']"
    by code_simp
  from general have "\<exists>cs. get_configs is_enabled order_value two_app_env two_app_registry = Inr cs
           \<and> sorted (map order_value cs)
           \<and> mset cs = mset [committee_config ''committees'', inventory_config ''committees'']"
    by blast
  with two_app_discovered ord run show ?thesis by blast
qed

lemma scan_apps_skips_absent:
  assumes "import_module env (config_module_name app (folder_name self)) = Inl e"
    and "submodule_absent app (folder_name self) e"
  shows "scan_apps enabled env self (app # rest) acc = scan_apps enabled env self rest acc"
  using assms by (auto simp: submodule_absent_def)

lemma scan_apps_propagates:
  assumes "import_module env (config_module_name app (folder_name self)) = Inl e"
    and "\<not> is_ModuleNotFoundError e"
  shows "scan_apps enabled env self (app # rest) acc = Inl e"
  using assms by simp

text \<open>
  C7, at the failing input. The config module of \<open>committees\<close> exists, and importing
  it raises \<open>ModuleNotFoundError\<close> for another module (\<open>icalendar\<close>): an exception
  raised while importing the submodule that is not the submodule's absence. Discovery
  does not propagate it: it returns normally, and the configs of \<open>committees\<close> are
  missing from the result.
\<close>

theorem get_configs_swallows_nested_import_error:
  "import_module broken_import_env
      (config_module_name ''committees'' (folder_name two_app_registry)) =
     Inl (ModuleNotFoundError ''icalendar'')
   \<and> \<not> submodule_absent ''committees'' (folder_name two_app_registry)
         (ModuleNotFoundError ''icalendar'')
   \<and> get_configs is_enabled order_value broken_import_env two_app_registry =
       Inr [inventory_config ''committees'']"
proof (intro conjI)
  show "import_module broken_import_env
          (config_module_name ''committees'' (folder_name two_app_registry)) =
        Inl (ModuleNotFoundError ''icalendar'')"
    by (simp add: broken_import_env_def two_app_registry_def config_module_name_def)
  show "\<not> submodule_absent ''committees'' (folder_name two_app_registry)
           (ModuleNotFoundError ''icalendar'')"
    by (simp add: submodule_absent_def two_app_registry_def config_module_name_def)
  show "get_configs is_enabled order_value broken_import_env two_app_registry =
          Inr [inventory_config ''committees'']"
    by code_simp
qed

section \<open>Properties of the view mixin\<close>

text \<open>
  C8. A view constructed with no config, neither passed to the constructor nor set
  on the class, raises \<open>KeyError\<close> from \<open>__init__\<close>; a request served by such a
  view ends with that error, before the access check or any \<open>dispatch\<close> runs.
\<close>

theorem init_without_config_raises:
  "ViewCollectiveViewMixin_init class_name None None = Inl (KeyError (no_config_message class_name))
   \<and> serve_request class_name None None accessible kw super_dispatch request =
       Inl (KeyError (no_config_message class_name))"
  by (simp add: ViewCollectiveViewMixin_init_def serve_request_def py_or_def)

section \<open>Properties of the token mixins\<close>

lemma caught_decode: "decode_failure e \<Longrightarrow> get_url_object_catches self e"
  by (auto simp: decode_failure_def get_url_object_catches_def)

lemma caught_key: "key_failure e \<Longrightarrow> get_url_object_catches self e"
  by (auto simp: key_failure_def get_url_object_catches_def)

text \<open>
  C6. When decoding and key conversion raise nothing but their failure exceptions,
  \<open>get_url_object\<close> never raises: it returns the row whose primary key is the
  decoded input, and \<open>None\<close> when decoding fails, the key is rejected or overflows,
  or no row has that key.
\<close>

theorem get_url_object_total:
  assumes dec: "\<forall>e. urlsafe_base64_decode db uidb64 = Inl e \<longrightarrow> decode_failure e"
    and key: "\<forall>uid e. urlsafe_base64_decode db uidb64 = Inr uid \<longrightarrow> to_pk db uid = Inl e
                \<longrightarrow> key_failure e"
  shows "get_url_object self db uidb64 =
           (case urlsafe_base64_decode db uidb64 of
              Inl e \<Rightarrow> Inr None
            | Inr uid \<Rightarrow> (case to_pk db uid of Inl e \<Rightarrow> Inr None | Inr k \<Rightarrow> Inr (rows db k)))"
proof (cases "urlsafe_base64_decode db uidb64")
  case (Inl e)
  with dec have "get_url_object_catches self e" by (simp add: caught_decode)
  with Inl show ?thesis by (simp add: get_url_object_def)
next
  case (Inr uid)
  show ?thesis
  proof (cases "to_pk db uid")
    case (Inl e)
    with key Inr have "get_url_object_catches self e" by (simp add: caught_key)
    with Inl Inr show ?thesis by (simp add: get_url_object_def manager_get_def)
  next
    case k: (Inr k)
    show ?thesis
    proof (cases "rows db k")
      case None
      with Inr k show ?thesis
        by (simp add: get_url_object_def manager_get_def get_url_object_catches_def)
    next
      case (Some obj)
      with Inr k show ?thesis by (simp add: get_url_object_def manager_get_def)
    qed
  qed
qed

text \<open>
  C4. For a request to a token view whose object lookup returns: when the link is
  invalid, the failure template is rendered and the wrapped view is not called;
  when it is valid, the result is the wrapped view's \<open>dispatch\<close>, run on a view
  that has the resolved object and \<open>validlink\<close> set.
\<close>

theorem token_dispatch_outcome:
  assumes uid: "kwargs (object_id_kwarg_name self) = Some uidb64"
    and obj: "get_url_object self db uidb64 = Inr obj"
  shows "(\<forall>token. kwargs (token_kwarg_name self) = Some token \<longrightarrow>
            (url_link_invalid self gen now obj token sess \<longrightarrow>
               UrlTokenMixin_dispatch self db gen now super_dispatch path sess kwargs =
                 Inr (Render (fail_template_name self),
                      \<lparr>validlink = False, url_object = obj, session = sess\<rparr>))
          \<and> (url_link_valid self gen now obj token sess \<longrightarrow>
               UrlTokenMixin_dispatch self db gen now super_dispatch path sess kwargs =
                 Inr (Wrapped (super_dispatch
                                 \<lparr>validlink = True, url_object = obj, session = sess\<rparr> kwargs),
                      \<lparr>validlink = True, url_object = obj, session = sess\<rparr>)
               \<and> obj \<noteq> None))
       \<and> (\<not> session_link_valid self gen now obj sess \<longrightarrow>
            SessionTokenMixin_dispatch self db gen now super_dispatch sess kwargs =
              Inr (Render (fail_template_name self),
                   \<lparr>validlink = False, url_object = obj, session = sess\<rparr>))
       \<and> (session_link_valid self gen now obj sess \<longrightarrow>
            SessionTokenMixin_dispatch self db gen now super_dispatch sess kwargs =
              Inr (Wrapped (super_dispatch
                              \<lparr>validlink = True, url_object = obj, session = sess\<rparr> kwargs),
                   \<lparr>validlink = True, url_object = obj, session = sess\<rparr>)
            \<and> obj \<noteq> None)"
  using uid obj
  by (cases obj)
     (simp_all add: UrlTokenMixin_dispatch_def SessionTokenMixin_dispatch_def
        TokenMixinBase_dispatch_def url_link_invalid_def url_link_valid_def
        session_link_valid_def Let_def)

text \<open>
  C5. A \<open>UrlTokenMixin\<close> request whose URL carries a token other than the
  placeholder, valid for the resolved object: the token is stored in the session
  under \<open>session_token_name\<close>, the response is a redirect to the request path with
  the token replaced by the placeholder, and \<open>validlink\<close> stays false.
\<close>

theorem url_token_redirect:
  assumes uid: "kwargs (object_id_kwarg_name self) = Some uidb64"
    and tok: "kwargs (token_kwarg_name self) = Some token"
    and obj: "get_url_object self db uidb64 = Inr (Some url_obj)"
    and real: "token \<noteq> url_token_name self"
    and ok: "check_token gen now url_obj (Some token)"
  shows "UrlTokenMixin_dispatch self db gen now super_dispatch path sess kwargs =
           Inr (HttpResponseRedirect (py_replace path token (url_token_name self)),
                \<lparr>validlink = False, url_object = Some url_obj,
                 session = sess(session_token_name self \<mapsto> token)\<rparr>)"
  using assms by (simp add: UrlTokenMixin_dispatch_def Let_def)

lemma alice_resolved:
  "get_url_object link_view (member_orm alice) ''MQ'' = Inr (Some alice)"
  by (simp add: get_url_object_def manager_get_def member_orm_def)

theorem get_url_object_total_witness:
  "urlsafe_base64_decode (member_orm alice) ''MQ'' = Inr ''1''
   \<and> to_pk (member_orm alice) ''1'' = Inr 1
   \<and> rows (member_orm alice) 1 = Some alice
   \<and> get_url_object link_view (member_orm alice) ''MQ'' = Inr (Some alice)
   \<and> urlsafe_base64_decode (member_orm alice) ''OTk'' = Inr ''99''
   \<and> to_pk (member_orm alice) ''99'' = Inr 99
   \<and> rows (member_orm alice) 99 = None
   \<and> urlsafe_base64_decode (member_orm alice) ''%%'' = Inl ValueError
   \<and> decode_failure ValueError
   \<and> get_url_object link_view (member_orm alice) ''OTk'' = Inr None
   \<and> get_url_object link_view (member_orm alice) ''%%'' = Inr None"
proof -
  have d: "\<forall>e. urlsafe_base64_decode (member_orm alice) s = Inl e \<longrightarrow> decode_failure e" for s
    by (simp add: member_orm_def decode_failure_def)
  have k: "\<forall>uid e. urlsafe_base64_decode (member_orm alice) s = Inr uid
          \<longrightarrow> to_pk (member_orm alice) uid = Inl e \<longrightarrow> key_failure e" for s
    by (simp add: member_orm_def key_failure_def)
  from get_url_object_total[of "member_orm alice" "''MQ''" link_view, OF d k]
       get_url_object_total[of "member_orm alice" "''OTk''" link_view, OF d k]
       get_url_object_total[of "member_orm alice" "''%%''" link_view, OF d k]
  show ?thesis by (simp add: member_orm_def decode_failure_def)
qed

lemma tampered_invalid:
  "url_link_invalid link_view member_generator 160 (Some alice) ''tk-mallory@uu.nl'' Map.empty"
  by (simp add: url_link_invalid_def check_token_def make_token_with_timestamp_def
      link_view_def member_generator_def alice_def)

lemma stored_valid:
  "url_link_valid link_view member_generator 160 (Some alice) ''link-account''
     [''_link_account_token'' \<mapsto> ''tk-alice@uu.nl'']"
  "session_link_valid link_view member_generator 160 (Some alice)
     [''_link_account_token'' \<mapsto> ''tk-alice@uu.nl'']"
  by (simp_all add: url_link_valid_def session_link_valid_def check_token_def
      make_token_with_timestamp_def link_view_def member_generator_def alice_def)

theorem token_dispatch_outcome_witness:
  "link_kwargs ''tk-mallory@uu.nl'' (object_id_kwarg_name link_view) = Some ''MQ''
   \<and> link_kwargs ''tk-mallory@uu.nl'' (token_kwarg_name link_view) = Some ''tk-mallory@uu.nl''
   \<and> get_url_object link_view (member_orm alice) ''MQ'' = Inr (Some alice)
   \<and> url_link_invalid link_view member_generator 160 (Some alice) ''tk-mallory@uu.nl'' Map.empty
   \<and> UrlTokenMixin_dispatch link_view (member_orm alice) member_generator 160 link_form
         ''/account/link/MQ/tk-mallory@uu.nl/'' Map.empty (link_kwargs ''tk-mallory@uu.nl'') =
       Inr (Render ''core/user_accounts/link_fail.html'',
            \<lparr>validlink = False, url_object = Some alice, session = Map.empty\<rparr>)
   \<and> url_link_valid link_view member_generator 160 (Some alice) ''link-account''
         [''_link_account_token'' \<mapsto> ''tk-alice@uu.nl'']
   \<and> UrlTokenMixin_dispatch link_view (member_orm alice) member_generator 160 link_form
         ''/account/link/MQ/link-account/'' [''_link_account_token'' \<mapsto> ''tk-alice@uu.nl'']
         (link_kwargs ''link-account'') =
       Inr (Wrapped ''core/user_accounts/link_form.html'',
            \<lparr>validlink = True, url_object = Some alice,
             session = [''_link_account_token'' \<mapsto> ''tk-alice@uu.nl'']\<rparr>)
   \<and> [''uidb64'' \<mapsto> ''MQ''] (object_id_kwarg_name link_view) = Some ''MQ''
   \<and> session_link_valid link_view member_generator 160 (Some alice)
         [''_link_account_token'' \<mapsto> ''tk-alice@uu.nl'']
   \<and> SessionTokenMixin_dispatch link_view (member_orm alice) member_generator 160 link_form
         [''_link_account_token'' \<mapsto> ''tk-alice@uu.nl''] [''uidb64'' \<mapsto> ''MQ''] =
       Inr (Wrapped ''core/user_accounts/link_form.html'',
            \<lparr>validlink = True, url_object = Some alice,
             session = [''_link_account_token'' \<mapsto> ''tk-alice@uu.nl'']\<rparr>)
   \<and> \<not> session_link_valid link_view member_generator 160 (Some alice) Map.empty
   \<and> SessionTokenMixin_dispatch link_view (member_orm alice) member_generator 160 link_form
         Map.empty [''uidb64'' \<mapsto> ''MQ''] =
       Inr (Render ''core/user_accounts/link_fail.html'',
            \<lparr>validlink = False, url_object = Some alice, session = Map.empty\<rparr>)"
proof -
  have kw: "link_kwargs t (object_id_kwarg_name link_view) = Some ''MQ''"
           "link_kwargs t (token_kwarg_name link_view) = Some t" for t
    by (simp_all add: link_kwargs_def link_view_def)
  have kw_session: "[''uidb64'' \<mapsto> ''MQ''] (object_id_kwarg_name link_view) = Some ''MQ''"
    by (simp add: link_view_def)
  have empty_invalid: "\<not> session_link_valid link_view member_generator 160 (Some alice) Map.empty"
    by (simp add: session_link_valid_def check_token_def)
  note bad = token_dispatch_outcome[where kwargs = "link_kwargs ''tk-mallory@uu.nl''"
      and gen = member_generator and now = 160 and sess = Map.empty
      and super_dispatch = link_form and path = "''/account/link/MQ/tk-mallory@uu.nl/''",
      OF kw(1) alice_resolved]
  note good = token_dispatch_outcome[where kwargs = "link_kwargs ''link-account''"
      and gen = member_generator and now = 160
      and sess = "[''_link_account_token'' \<mapsto> ''tk-alice@uu.nl'']"
      and super_dispatch = link_form and path = "''/account/link/MQ/link-account/''",
      OF kw(1) alice_resolved]
  note stored = token_dispatch_outcome[where kwargs = "[''uidb64'' \<mapsto> ''MQ'']"
      and gen = member_generator and now = 160
      and sess = "[''_link_account_token'' \<mapsto> ''tk-alice@uu.nl'']"
      and super_dispatch = link_form and path = "[]",
      OF kw_session alice_resolved]
  note none = token_dispatch_outcome[where kwargs = "[''uidb64'' \<mapsto> ''MQ'']"
      and gen = member_generator and now = 160 and sess = Map.empty
      and super_dispatch = link_form and path = "[]",
      OF kw_session alice_resolved]
  have fail: "fail_template_name link_view = ''core/user_accounts/link_fail.html''"
    by (simp add: link_view_def)
  have form: "link_form v k = ''core/user_accounts/link_form.html''" for v k
    by (simp add: link_form_def)
  have url_bad: "UrlTokenMixin_dispatch link_view (member_orm alice) member_generator 160 link_form
         ''/account/link/MQ/tk-mallory@uu.nl/'' Map.empty (link_kwargs ''tk-mallory@uu.nl'') =
       Inr (Render ''core/user_accounts/link_fail.html'',
            \<lparr>validlink = False, url_object = Some alice, session = Map.empty\<rparr>)"
    using bad kw(2)[of "''tk-mallory@uu.nl''"] tampered_invalid by (simp add: fail)
  have url_good: "UrlTokenMixin_dispatch link_view (member_orm alice) member_generator 160 link_form
         ''/account/link/MQ/link-account/'' [''_link_account_token'' \<mapsto> ''tk-alice@uu.nl'']
         (link_kwargs ''link-account'') =
       Inr (Wrapped ''core/user_accounts/link_form.html'',
            \<lparr>validlink = True, url_object = Some alice,
             session = [''_link_account_token'' \<mapsto> ''tk-alice@uu.nl'']\<rparr>)"
    using good kw(2)[of "''link-account''"] stored_valid(1) by (simp add: form)
  have session_good: "SessionTokenMixin_dispatch link_view (member_orm alice) member_generator 160
         link_form [''_link_account_token'' \<mapsto> ''tk-alice@uu.nl''] [''uidb64'' \<mapsto> ''MQ''] =
       Inr (Wrapped ''core/user_accounts/link_form.html'',
            \<lparr>validlink = True, url_object = Some alice,
             session = [''_link_account_token'' \<mapsto> ''tk-alice@uu.nl'']\<rparr>)"
    using stored stored_valid(2) by (simp add: form)
  have session_bad: "SessionTokenMixin_dispatch link_view (member_orm alice) member_generator 160
         link_form Map.empty [''uidb64'' \<mapsto> ''MQ''] =
       Inr (Render ''core/user_accounts/link_fail.html'',
            \<lparr>validlink = False, url_object = Some alice, session = Map.empty\<rparr>)"
    using none empty_invalid by (simp add: fail)
  show ?thesis
    using url_bad url_good session_good session_bad tampered_invalid stored_valid
      empty_invalid kw kw_session alice_resolved
    by simp
qed

lemma replace_scan_skip:
  "length xs = k \<Longrightarrow> replace_scan old new k (xs @ ys) = replace_scan old new 0 ys"
  by (induction xs arbitrary: k) auto

lemma replace_scan_no_match:
  "\<forall>i<length xs. \<not> prefix old (drop i (xs @ ys)) \<Longrightarrow>
     replace_scan old new 0 (xs @ ys) = xs @ replace_scan old new 0 ys"
proof (induction xs)
  case Nil
  then show ?case by simp
next
  case (Cons x xs)
  from Cons.prems have here: "\<not> prefix old (x # xs @ ys)" by force
  from Cons.prems have "\<forall>i<length xs. \<not> prefix old (drop i (xs @ ys))" by force
  with Cons.IH here show ?case by simp
qed

lemma replace_scan_match:
  assumes "old \<noteq> []"
  shows "replace_scan old new 0 (old @ ys) = new @ replace_scan old new 0 ys"
proof -
  from assms obtain c cs where old: "old = c # cs" by (cases old) auto
  have "replace_scan old new (length cs) (cs @ ys) = replace_scan old new 0 ys"
    by (rule replace_scan_skip) simp
  with old show ?thesis by simp
qed

lemma py_replace_one_occurrence:
  assumes "token \<noteq> []"
    and "\<forall>i<length pre. \<not> prefix token (drop i (pre @ token @ post))"
    and "\<forall>i<length post. \<not> prefix token (drop i post)"
  shows "py_replace (pre @ token @ post) token new = pre @ new @ post"
proof -
  have "replace_scan token new 0 post = post"
    using replace_scan_no_match[of post token "[]" new] assms(3) by simp
  then show ?thesis
    using assms(1) replace_scan_no_match[OF assms(2), of new] replace_scan_match[OF assms(1), of new post]
    by (simp add: py_replace_def)
qed

lemma check_token_iff:
  "check_token gen now obj (Some t) =
     (t \<noteq> [] \<and> (\<exists>ts. token_timestamp gen t = Some ts
                     \<and> make_token_with_timestamp gen obj ts = t
                     \<and> \<not> now - ts > timeout gen))"
  by (auto simp: check_token_def split: option.splits)

lemma check_token_same_hash:
  assumes "check_token gen now a (Some t)" and "token_timestamp gen t = Some ts"
    and "make_hash_value gen b ts = make_hash_value gen a ts"
    and "\<not> now' - ts > timeout gen"
  shows "check_token gen now' b (Some t)"
  using assms by (simp add: check_token_iff make_token_with_timestamp_def)

lemma check_token_other_token:
  assumes "check_token gen now a (Some t)" and "token_timestamp gen t = Some ts"
    and "make_token_with_timestamp gen b ts \<noteq> make_token_with_timestamp gen a ts"
  shows "\<not> check_token gen now' b (Some t)"
  using assms by (auto simp: check_token_iff)

lemma check_token_expired:
  assumes "token_timestamp gen t = Some ts" and "now' - ts > timeout gen"
  shows "\<not> check_token gen now' b (Some t)"
  using assms by (auto simp: check_token_iff)

text \<open>
  C3, as the code has it. Token round trip. A token that the generator accepts for
  object \<open>O\<close> at the time of the request, submitted in the URL of a \<open>UrlTokenMixin\<close>
  view, is accepted (the response is the redirect) and stored in the session. At a
  later request that carries no token of its own (a \<open>SessionTokenMixin\<close> view, or
  the placeholder URL), validation against the stored token succeeds when the
  object's hash value (its validity-affecting fields) is unchanged and the token's
  timeout has not passed; the failure template is rendered when the object has
  changed so that its token at that timestamp is another one, and also when the
  timeout has passed.
\<close>

theorem token_round_trip:
  assumes uid: "kwargs (object_id_kwarg_name self) = Some uidb64"
    and tok: "kwargs (token_kwarg_name self) = Some token"
    and obj: "get_url_object self db uidb64 = Inr (Some url_obj)"
    and real: "token \<noteq> url_token_name self"
    and ok: "check_token gen now url_obj (Some token)"
    and ts: "token_timestamp gen token = Some ts"
    and uid': "kwargs' (object_id_kwarg_name self) = Some uidb64"
    and obj': "get_url_object self db' uidb64 = Inr (Some url_obj')"
  shows "\<exists>view. UrlTokenMixin_dispatch self db gen now super_dispatch path sess kwargs =
                  Inr (HttpResponseRedirect (py_replace path token (url_token_name self)), view)
           \<and> session view (session_token_name self) = Some token
           \<and> (make_hash_value gen url_obj' ts = make_hash_value gen url_obj ts
                \<and> \<not> now' - ts > timeout gen \<longrightarrow>
                (\<exists>view'. SessionTokenMixin_dispatch self db' gen now' super_dispatch (session view)
                            kwargs' =
                            Inr (Wrapped (super_dispatch view' kwargs'), view')
                         \<and> validlink view' \<and> url_object view' = Some url_obj')
              \<and> (kwargs' (token_kwarg_name self) = Some (url_token_name self) \<longrightarrow>
                  (\<exists>view'. UrlTokenMixin_dispatch self db' gen now' super_dispatch path'
                              (session view) kwargs' =
                            Inr (Wrapped (super_dispatch view' kwargs'), view')
                         \<and> validlink view' \<and> url_object view' = Some url_obj')))
           \<and> (make_token_with_timestamp gen url_obj' ts \<noteq> make_token_with_timestamp gen url_obj ts
                \<or> now' - ts > timeout gen \<longrightarrow>
                (\<exists>view'. SessionTokenMixin_dispatch self db' gen now' super_dispatch (session view)
                            kwargs' =
                            Inr (Render (fail_template_name self), view') \<and> \<not> validlink view')
              \<and> (kwargs' (token_kwarg_name self) = Some (url_token_name self) \<longrightarrow>
                  (\<exists>view'. UrlTokenMixin_dispatch self db' gen now' super_dispatch path'
                              (session view) kwargs' =
                            Inr (Render (fail_template_name self), view') \<and> \<not> validlink view')))"
proof -
  let ?view = "\<lparr>validlink = False, url_object = Some url_obj,
                 session = sess(session_token_name self \<mapsto> token)\<rparr>"
  let ?valid = "\<lparr>validlink = True, url_object = Some url_obj', session = session ?view\<rparr>"
  let ?invalid = "\<lparr>validlink = False, url_object = Some url_obj', session = session ?view\<rparr>"
  have first: "UrlTokenMixin_dispatch self db gen now super_dispatch path sess kwargs =
                 Inr (HttpResponseRedirect (py_replace path token (url_token_name self)), ?view)"
    using uid tok obj real ok by (simp add: UrlTokenMixin_dispatch_def Let_def)
  have stored: "session ?view (session_token_name self) = Some token" by simp
  have session_ok: "check_token gen now' url_obj' (Some token) \<Longrightarrow>
      SessionTokenMixin_dispatch self db' gen now' super_dispatch (session ?view) kwargs' =
        Inr (Wrapped (super_dispatch ?valid kwargs'), ?valid)"
    using uid' obj'
    by (simp add: SessionTokenMixin_dispatch_def TokenMixinBase_dispatch_def Let_def)
  have url_ok: "check_token gen now' url_obj' (Some token) \<Longrightarrow>
      kwargs' (token_kwarg_name self) = Some (url_token_name self) \<Longrightarrow>
      UrlTokenMixin_dispatch self db' gen now' super_dispatch path' (session ?view) kwargs' =
        Inr (Wrapped (super_dispatch ?valid kwargs'), ?valid)"
    using uid' obj'
    by (simp add: UrlTokenMixin_dispatch_def TokenMixinBase_dispatch_def Let_def)
  have session_bad: "\<not> check_token gen now' url_obj' (Some token) \<Longrightarrow>
      SessionTokenMixin_dispatch self db' gen now' super_dispatch (session ?view) kwargs' =
        Inr (Render (fail_template_name self), ?invalid)"
    using uid' obj'
    by (simp add: SessionTokenMixin_dispatch_def TokenMixinBase_dispatch_def Let_def)
  have url_bad: "\<not> check_token gen now' url_obj' (Some token) \<Longrightarrow>
      kwargs' (token_kwarg_name self) = Some (url_token_name self) \<Longrightarrow>
      UrlTokenMixin_dispatch self db' gen now' super_dispatch path' (session ?view) kwargs' =
        Inr (Render (fail_template_name self), ?invalid)"
    using uid' obj'
    by (simp add: UrlTokenMixin_dispatch_def TokenMixinBase_dispatch_def Let_def)
  have sel: "validlink ?valid" "url_object ?valid = Some url_obj'" "\<not> validlink ?invalid"
    by simp_all
  show ?thesis
  proof (rule exI[of _ ?view], intro conjI impI)
    show "UrlTokenMixin_dispatch self db gen now super_dispatch path sess kwargs =
            Inr (HttpResponseRedirect (py_replace path token (url_token_name self)), ?view)"
      by (rule first)
    show "session ?view (session_token_name self) = Some token" by (rule stored)
  next
    assume h: "make_hash_value gen url_obj' ts = make_hash_value gen url_obj ts
                \<and> \<not> now' - ts > timeout gen"
    then have c: "check_token gen now' url_obj' (Some token)"
      using check_token_same_hash[OF ok ts, of url_obj' now'] by blast
    show "\<exists>view'. SessionTokenMixin_dispatch self db' gen now' super_dispatch (session ?view)
                   kwargs' =
                   Inr (Wrapped (super_dispatch view' kwargs'), view')
                 \<and> validlink view' \<and> url_object view' = Some url_obj'"
      using session_ok[OF c] sel by blast
  next
    assume h: "make_hash_value gen url_obj' ts = make_hash_value gen url_obj ts
                \<and> \<not> now' - ts > timeout gen"
      and k: "kwargs' (token_kwarg_name self) = Some (url_token_name self)"
    from h have c: "check_token gen now' url_obj' (Some token)"
      using check_token_same_hash[OF ok ts, of url_obj' now'] by blast
    show "\<exists>view'. UrlTokenMixin_dispatch self db' gen now' super_dispatch path' (session ?view)
                   kwargs' =
                   Inr (Wrapped (super_dispatch view' kwargs'), view')
                 \<and> validlink view' \<and> url_object view' = Some url_obj'"
      using url_ok[OF c k] sel by blast
  next
    assume h: "make_token_with_timestamp gen url_obj' ts \<noteq> make_token_with_timestamp gen url_obj ts
                \<or> now' - ts > timeout gen"
    then have c: "\<not> check_token gen now' url_obj' (Some token)"
      using check_token_other_token[OF ok ts, of url_obj' now']
            check_token_expired[OF ts, of now' url_obj'] by blast
    show "\<exists>view'. SessionTokenMixin_dispatch self db' gen now' super_dispatch (session ?view)
                   kwargs' =
                   Inr (Render (fail_template_name self), view') \<and> \<not> validlink view'"
      using session_bad[OF c] sel by blast
  next
    assume h: "make_token_with_timestamp gen url_obj' ts \<noteq> make_token_with_timestamp gen url_obj ts
                \<or> now' - ts > timeout gen"
      and k: "kwargs' (token_kwarg_name self) = Some (url_token_name self)"
    from h have c: "\<not> check_token gen now' url_obj' (Some token)"
      using check_token_other_token[OF ok ts, of url_obj' now']
            check_token_expired[OF ts, of now' url_obj'] by blast
    show "\<exists>view'. UrlTokenMixin_dispatch self db' gen now' super_dispatch path' (session ?view)
                   kwargs' =
                   Inr (Render (fail_template_name self), view') \<and> \<not> validlink view'"
      using url_bad[OF c k] sel by blast
  qed
qed

lemma replaced_path:
  "py_replace ''/account/link/MQ/tk-alice@uu.nl/'' ''tk-alice@uu.nl'' ''link-account'' =
     ''/account/link/MQ/link-account/''"
  by code_simp

lemma alice_token_ok: "check_token member_generator 160 alice (Some ''tk-alice@uu.nl'')"
  by (simp add: check_token_def make_token_with_timestamp_def member_generator_def alice_def)

lemma link_kwargs_keys:
  "link_kwargs t (object_id_kwarg_name link_view) = Some ''MQ''"
  "link_kwargs t (token_kwarg_name link_view) = Some t"
  by (simp_all add: link_kwargs_def link_view_def)

theorem url_token_redirect_witness:
  "link_kwargs ''tk-alice@uu.nl'' (object_id_kwarg_name link_view) = Some ''MQ''
   \<and> link_kwargs ''tk-alice@uu.nl'' (token_kwarg_name link_view) = Some ''tk-alice@uu.nl''
   \<and> get_url_object link_view (member_orm alice) ''MQ'' = Inr (Some alice)
   \<and> ''tk-alice@uu.nl'' \<noteq> url_token_name link_view
   \<and> check_token member_generator 160 alice (Some ''tk-alice@uu.nl'')
   \<and> UrlTokenMixin_dispatch link_view (member_orm alice) member_generator 160 link_form
         ''/account/link/MQ/tk-alice@uu.nl/'' Map.empty (link_kwargs ''tk-alice@uu.nl'') =
       Inr (HttpResponseRedirect ''/account/link/MQ/link-account/'',
            \<lparr>validlink = False, url_object = Some alice,
             session = [''_link_account_token'' \<mapsto> ''tk-alice@uu.nl'']\<rparr>)"
proof -
  have real: "''tk-alice@uu.nl'' \<noteq> url_token_name link_view"
    by (simp add: link_view_def)
  have names: "url_token_name link_view = ''link-account''"
              "session_token_name link_view = ''_link_account_token''"
    by (simp_all add: link_view_def)
  from url_token_redirect[where kwargs = "link_kwargs ''tk-alice@uu.nl''"
      and gen = member_generator and now = 160 and sess = Map.empty and super_dispatch = link_form
      and path = "''/account/link/MQ/tk-alice@uu.nl/''",
      OF link_kwargs_keys(1) link_kwargs_keys(2) alice_resolved real alice_token_ok]
  show ?thesis
    using link_kwargs_keys alice_resolved real alice_token_ok
    by (simp add: names replaced_path)
qed

lemma changed_resolved:
  "get_url_object link_view (member_orm (alice\<lparr>linked := True\<rparr>)) ''MQ'' =
     Inr (Some (alice\<lparr>linked := True\<rparr>))"
  by (simp add: get_url_object_def manager_get_def member_orm_def)

lemma alice_token_timestamp: "token_timestamp member_generator ''tk-alice@uu.nl'' = Some 100"
  by (simp add: member_generator_def)

lemma link_view_names:
  "url_token_name link_view = ''link-account''"
  "session_token_name link_view = ''_link_account_token''"
  "fail_template_name link_view = ''core/user_accounts/link_fail.html''"
  by (simp_all add: link_view_def)

lemma first_request:
  "UrlTokenMixin_dispatch link_view (member_orm alice) member_generator 160 link_form
     ''/account/link/MQ/tk-alice@uu.nl/'' Map.empty (link_kwargs ''tk-alice@uu.nl'') =
   Inr (HttpResponseRedirect ''/account/link/MQ/link-account/'',
        \<lparr>validlink = False, url_object = Some alice,
         session = [''_link_account_token'' \<mapsto> ''tk-alice@uu.nl'']\<rparr>)"
  using link_kwargs_keys[of "''tk-alice@uu.nl''"] alice_resolved alice_token_ok
  by (simp add: UrlTokenMixin_dispatch_def Let_def link_view_names replaced_path)

theorem token_round_trip_witness:
  "link_kwargs ''tk-alice@uu.nl'' (object_id_kwarg_name link_view) = Some ''MQ''
   \<and> link_kwargs ''tk-alice@uu.nl'' (token_kwarg_name link_view) = Some ''tk-alice@uu.nl''
   \<and> get_url_object link_view (member_orm alice) ''MQ'' = Inr (Some alice)
   \<and> ''tk-alice@uu.nl'' \<noteq> url_token_name link_view
   \<and> check_token member_generator 160 alice (Some ''tk-alice@uu.nl'')
   \<and> token_timestamp member_generator ''tk-alice@uu.nl'' = Some 100
   \<and> link_kwargs ''link-account'' (object_id_kwarg_name link_view) = Some ''MQ''
   \<and> link_kwargs ''link-account'' (token_kwarg_name link_view) = Some (url_token_name link_view)
   \<and> make_hash_value member_generator alice 100 = make_hash_value member_generator alice 100
   \<and> \<not> (3600 :: int) - 100 > timeout member_generator
   \<and> (\<exists>view'. SessionTokenMixin_dispatch link_view (member_orm alice) member_generator 3600
                  link_form [''_link_account_token'' \<mapsto> ''tk-alice@uu.nl'']
                  (link_kwargs ''link-account'') =
                Inr (Wrapped (link_form view' (link_kwargs ''link-account'')), view')
              \<and> validlink view')
   \<and> (\<exists>view'. UrlTokenMixin_dispatch link_view (member_orm alice) member_generator 3600
                  link_form ''/account/link/MQ/link-account/''
                  [''_link_account_token'' \<mapsto> ''tk-alice@uu.nl'']
                  (link_kwargs ''link-account'') =
                Inr (Wrapped (link_form view' (link_kwargs ''link-account'')), view')
              \<and> validlink view')
   \<and> get_url_object link_view (member_orm (alice\<lparr>linked := True\<rparr>)) ''MQ'' =
       Inr (Some (alice\<lparr>linked := True\<rparr>))
   \<and> make_token_with_timestamp member_generator (alice\<lparr>linked := True\<rparr>) 100 \<noteq>
       make_token_with_timestamp member_generator alice 100
   \<and> (\<exists>view'. SessionTokenMixin_dispatch link_view
                  (member_orm (alice\<lparr>linked := True\<rparr>)) member_generator 3600
                  link_form [''_link_account_token'' \<mapsto> ''tk-alice@uu.nl'']
                  (link_kwargs ''link-account'') =
                Inr (Render (fail_template_name link_view), view')
              \<and> \<not> validlink view')
   \<and> (\<exists>view'. UrlTokenMixin_dispatch link_view
                  (member_orm (alice\<lparr>linked := True\<rparr>)) member_generator 3600
                  link_form ''/account/link/MQ/link-account/''
                  [''_link_account_token'' \<mapsto> ''tk-alice@uu.nl'']
                  (link_kwargs ''link-account'') =
                Inr (Render (fail_template_name link_view), view')
              \<and> \<not> validlink view')"
proof -
  let ?stored = "[''_link_account_token'' \<mapsto> ''tk-alice@uu.nl'']"
  have real: "''tk-alice@uu.nl'' \<noteq> url_token_name link_view"
    by (simp add: link_view_def)
  have sentinel: "link_kwargs ''link-account'' (token_kwarg_name link_view) =
                    Some (url_token_name link_view)"
    by (simp add: link_kwargs_def link_view_def)
  have same: "make_hash_value member_generator alice 100 = make_hash_value member_generator alice 100"
    by simp
  have fresh: "\<not> (3600 :: int) - 100 > timeout member_generator"
    by (simp add: member_generator_def)
  have other: "make_token_with_timestamp member_generator (alice\<lparr>linked := True\<rparr>) 100 \<noteq>
                 make_token_with_timestamp member_generator alice 100"
    by (simp add: make_token_with_timestamp_def member_generator_def alice_def)
  note unchanged = token_round_trip[where kwargs = "link_kwargs ''tk-alice@uu.nl''"
      and kwargs' = "link_kwargs ''link-account''" and db' = "member_orm alice"
      and gen = member_generator and now = 160 and now' = 3600 and sess = Map.empty
      and super_dispatch = link_form
      and path = "''/account/link/MQ/tk-alice@uu.nl/''"
      and path' = "''/account/link/MQ/link-account/''",
      OF link_kwargs_keys(1) link_kwargs_keys(2) alice_resolved real alice_token_ok
         alice_token_timestamp link_kwargs_keys(1) alice_resolved]
  note changed = token_round_trip[where kwargs = "link_kwargs ''tk-alice@uu.nl''"
      and kwargs' = "link_kwargs ''link-account''"
      and db' = "member_orm (alice\<lparr>linked := True\<rparr>)"
      and gen = member_generator and now = 160 and now' = 3600 and sess = Map.empty
      and super_dispatch = link_form
      and path = "''/account/link/MQ/tk-alice@uu.nl/''"
      and path' = "''/account/link/MQ/link-account/''",
      OF link_kwargs_keys(1) link_kwargs_keys(2) alice_resolved real alice_token_ok
         alice_token_timestamp link_kwargs_keys(1) changed_resolved]
  from unchanged obtain v1 where v1:
    "UrlTokenMixin_dispatch link_view (member_orm alice) member_generator 160 link_form
       ''/account/link/MQ/tk-alice@uu.nl/'' Map.empty (link_kwargs ''tk-alice@uu.nl'') =
     Inr (HttpResponseRedirect
            (py_replace ''/account/link/MQ/tk-alice@uu.nl/'' ''tk-alice@uu.nl''
               (url_token_name link_view)), v1)"
    "\<exists>view'. SessionTokenMixin_dispatch link_view (member_orm alice) member_generator 3600
                  link_form (session v1) (link_kwargs ''link-account'') =
                Inr (Wrapped (link_form view' (link_kwargs ''link-account'')), view')
              \<and> validlink view'"
    "\<exists>view'. UrlTokenMixin_dispatch link_view (member_orm alice) member_generator 3600
                  link_form ''/account/link/MQ/link-account/'' (session v1)
                  (link_kwargs ''link-account'') =
                Inr (Wrapped (link_form view' (link_kwargs ''link-account'')), view')
              \<and> validlink view'"
    using same fresh sentinel by blast
  from changed obtain v2 where v2:
    "UrlTokenMixin_dispatch link_view (member_orm alice) member_generator 160 link_form
       ''/account/link/MQ/tk-alice@uu.nl/'' Map.empty (link_kwargs ''tk-alice@uu.nl'') =
     Inr (HttpResponseRedirect
            (py_replace ''/account/link/MQ/tk-alice@uu.nl/'' ''tk-alice@uu.nl''
               (url_token_name link_view)), v2)"
    "\<exists>view'. SessionTokenMixin_dispatch link_view
                  (member_orm (alice\<lparr>linked := True\<rparr>)) member_generator 3600
                  link_form (session v2) (link_kwargs ''link-account'') =
                Inr (Render (fail_template_name link_view), view')
              \<and> \<not> validlink view'"
    "\<exists>view'. UrlTokenMixin_dispatch link_view
                  (member_orm (alice\<lparr>linked := True\<rparr>)) member_generator 3600
                  link_form ''/account/link/MQ/link-account/'' (session v2)
                  (link_kwargs ''link-account'') =
                Inr (Render (fail_template_name link_view), view')
              \<and> \<not> validlink view'"
    using other sentinel by blast
  have s1: "session v1 = ?stored"
    using v1(1) first_request by (auto simp: link_view_names replaced_path)
  have s2: "session v2 = ?stored"
    using v2(1) first_request by (auto simp: link_view_names replaced_path)
  from v1(2,3) v2(2,3) s1 s2
       link_kwargs_keys alice_resolved real alice_token_ok alice_token_timestamp sentinel
       same fresh changed_resolved other
  show ?thesis by simp
qed

text \<open>
  C3 as first stated, without the timeout, fails. The member's token is accepted
  at time 160 and stored; the member is not changed; at time 259301, more than the
  timeout after the token's timestamp 100, validation against the stored token
  renders the failure template, in the \<open>SessionTokenMixin\<close> view and at the
  placeholder URL alike.
\<close>

theorem token_round_trip_expired_counterexample:
  "check_token member_generator 160 alice (Some ''tk-alice@uu.nl'')
   \<and> UrlTokenMixin_dispatch link_view (member_orm alice) member_generator 160 link_form
         ''/account/link/MQ/tk-alice@uu.nl/'' Map.empty (link_kwargs ''tk-alice@uu.nl'') =
       Inr (HttpResponseRedirect ''/account/link/MQ/link-account/'',
            \<lparr>validlink = False, url_object = Some alice,
             session = [''_link_account_token'' \<mapsto> ''tk-alice@uu.nl'']\<rparr>)
   \<and> get_url_object link_view (member_orm alice) ''MQ'' = Inr (Some alice)
   \<and> SessionTokenMixin_dispatch link_view (member_orm alice) member_generator 259301 link_form
         [''_link_account_token'' \<mapsto> ''tk-alice@uu.nl''] [''uidb64'' \<mapsto> ''MQ''] =
       Inr (Render ''core/user_accounts/link_fail.html'',
            \<lparr>validlink = False, url_object = Some alice,
             session = [''_link_account_token'' \<mapsto> ''tk-alice@uu.nl'']\<rparr>)
   \<and> UrlTokenMixin_dispatch link_view (member_orm alice) member_generator 259301 link_form
         ''/account/link/MQ/link-account/'' [''_link_account_token'' \<mapsto> ''tk-alice@uu.nl'']
         (link_kwargs ''link-account'') =
       Inr (Render ''core/user_accounts/link_fail.html'',
            \<lparr>validlink = False, url_object = Some alice,
             session = [''_link_account_token'' \<mapsto> ''tk-alice@uu.nl'']\<rparr>)"
proof -
  have expired: "\<not> check_token member_generator 259301 alice (Some ''tk-alice@uu.nl'')"
    by (simp add: check_token_def member_generator_def)
  have uid: "[''uidb64'' \<mapsto> ''MQ''] (object_id_kwarg_name link_view) = Some ''MQ''"
    by (simp add: link_view_def)
  have session_request:
    "SessionTokenMixin_dispatch link_view (member_orm alice) member_generator 259301 link_form
         [''_link_account_token'' \<mapsto> ''tk-alice@uu.nl''] [''uidb64'' \<mapsto> ''MQ''] =
       Inr (Render ''core/user_accounts/link_fail.html'',
            \<lparr>validlink = False, url_object = Some alice,
             session = [''_link_account_token'' \<mapsto> ''tk-alice@uu.nl'']\<rparr>)"
    using uid alice_resolved expired
    by (simp add: SessionTokenMixin_dispatch_def TokenMixinBase_dispatch_def Let_def
        link_view_names)
  have url_request:
    "UrlTokenMixin_dispatch link_view (member_orm alice) member_generator 259301 link_form
         ''/account/link/MQ/link-account/'' [''_link_account_token'' \<mapsto> ''tk-alice@uu.nl'']
         (link_kwargs ''link-account'') =
       Inr (Render ''core/user_accounts/link_fail.html'',
            \<lparr>validlink = False, url_object = Some alice,
             session = [''_link_account_token'' \<mapsto> ''tk-alice@uu.nl'']\<rparr>)"
    using link_kwargs_keys[of "''link-account''"] alice_resolved expired
    by (simp add: UrlTokenMixin_dispatch_def TokenMixinBase_dispatch_def Let_def
        link_view_names)
  from alice_token_ok first_request alice_resolved session_request url_request
  show ?thesis by simp
qed

section \<open>Properties of the Nextcloud views\<close>

lemma map_of_save_other:
  "k' \<noteq> pk \<Longrightarrow>
     map_of (map (\<lambda>(k, r). if k = pk then (k, g r) else (k, r)) tbl) k' = map_of tbl k'"
  by (induction tbl) auto

lemma map_of_save_same:
  "map_of tbl pk = Some row \<Longrightarrow>
     map_of (map (\<lambda>(k, r). if k = pk then (k, g r) else (k, r)) tbl) pk = Some (g row)"
  by (induction tbl) (auto split: if_splits)

lemma save_update_fields_row:
  assumes "inst ''id'' = VInt pk" and "map_of tbl pk = Some row"
  shows "\<exists>tbl'. save_update_fields fs inst tbl = Inr tbl'
           \<and> map_of tbl' pk = Some (write_fields fs inst row)
           \<and> (\<forall>k'. k' \<noteq> pk \<longrightarrow> map_of tbl' k' = map_of tbl k')"
  using assms by (simp add: save_update_fields_def map_of_save_other map_of_save_same)

lemma write_is_missing:
  "write_fields [''is_missing''] (inst(''is_missing'' := VBool True)) row =
     row(''is_missing'' := VBool True)"
  by (auto simp: write_fields_def fun_eq_iff)

lemma related_folder_frame:
  assumes "related_folder view file = (Inr folder, view1)"
  shows "folder_cache view1 = Some folder \<and> folders view1 = folders view
       \<and> files view1 = files view \<and> messages view1 = messages view
       \<and> file_attr view1 = file_attr view"
  using assms by (auto simp: related_folder_def split: option.splits val.splits)

lemma related_folder_cached:
  "folder_cache view = Some folder \<Longrightarrow> related_folder view file = (Inr folder, view)"
  by (simp add: related_folder_def)

lemma report_and_redirect_cached:
  assumes "file_attr view = Some file" and "folder_cache view = Some folder"
  shows "report_and_redirect msg view =
           (Inr (RedirectToFolderView (folder ''slug'')),
            view\<lparr>messages := messages view @ [case msg of None \<Rightarrow> unexpected_msg | Some m \<Rightarrow> m]\<rparr>)"
  using assms by (simp add: report_and_redirect_def Let_def related_folder_def)

lemma repair_folder:
  assumes fld: "related_folder view file = (Inr folder, view1)"
    and gone: "exists_remote client (folder ''folder'') = Inr False"
    and pk: "folder ''id'' = VInt k" and row: "map_of (folders view) k = Some row"
  shows "\<exists>tbl. repair_missing client file view =
             (Inr (Some folder_missing_msg),
              view1\<lparr>folder_cache := Some (folder(''is_missing'' := VBool True)), folders := tbl\<rparr>)
           \<and> map_of tbl k = Some (row(''is_missing'' := VBool True))
           \<and> (\<forall>k'. k' \<noteq> k \<longrightarrow> map_of tbl k' = map_of (folders view) k')"
proof -
  let ?folder' = "folder(''is_missing'' := VBool True)"
  have tbls: "folders view1 = folders view"
    using related_folder_frame[OF fld] by simp
  have id: "?folder' ''id'' = VInt k" using pk by simp
  from save_update_fields_row[where inst = "?folder'" and pk = k and tbl = "folders view"
        and row = row and fs = "[''is_missing'']"] id row
  obtain tbl' where t: "save_update_fields [''is_missing''] ?folder' (folders view) = Inr tbl'"
      "map_of tbl' k = Some (write_fields [''is_missing''] ?folder' row)"
      "\<forall>k'. k' \<noteq> k \<longrightarrow> map_of tbl' k' = map_of (folders view) k'"
    by blast
  show ?thesis
    using fld gone t tbls
    by (auto simp: repair_missing_def Let_def write_is_missing intro!: exI[of _ tbl'])
qed

lemma repair_file:
  assumes fld: "related_folder view file = (Inr folder, view1)"
    and there: "exists_remote client (folder ''folder'') = Inr True"
    and gone: "exists_remote client (file ''file'') = Inr False"
    and pk: "file ''id'' = VInt k" and row: "map_of (files view) k = Some row"
  shows "\<exists>tbl. repair_missing client file view =
             (Inr (Some file_missing_msg),
              view1\<lparr>file_attr := Some (file(''is_missing'' := VBool True)), files := tbl\<rparr>)
           \<and> map_of tbl k = Some (row(''is_missing'' := VBool True))
           \<and> (\<forall>k'. k' \<noteq> k \<longrightarrow> map_of tbl k' = map_of (files view) k')"
proof -
  let ?file' = "file(''is_missing'' := VBool True)"
  have tbls: "files view1 = files view"
    using related_folder_frame[OF fld] by simp
  have id: "?file' ''id'' = VInt k" using pk by simp
  from save_update_fields_row[where inst = "?file'" and pk = k and tbl = "files view"
        and row = row and fs = "[''is_missing'']"] id row
  obtain tbl' where t: "save_update_fields [''is_missing''] ?file' (files view) = Inr tbl'"
      "map_of tbl' k = Some (write_fields [''is_missing''] ?file' row)"
      "\<forall>k'. k' \<noteq> k \<longrightarrow> map_of tbl' k' = map_of (files view) k'"
    by blast
  show ?thesis
    using fld there gone t tbls
    by (auto simp: repair_missing_def Let_def write_is_missing intro!: exI[of _ tbl'])
qed

text \<open>
  C10. When the handler of \<open>DownloadFileview\<close> repairs state after a 404 (the folder
  is gone, or the folder is there and the file is gone), the stored row of the
  affected folder or file changes in its \<open>is_missing\<close> field only, whatever the
  instance in memory holds; every other row, and the other table, stay as they were.
\<close>

theorem repair_writes_only_is_missing:
  assumes fattr: "file_attr view = Some file"
    and fld: "related_folder view file = (Inr folder, view1)"
    and code: "actual_code error = Some 404"
  shows "(exists_remote client (folder ''folder'') = Inr False
            \<and> folder ''id'' = VInt k \<and> map_of (folders view) k = Some row \<longrightarrow>
          (\<exists>view'. DownloadFileview_nextcloud_operation_failed client error view =
                     (Inr (RedirectToFolderView (folder ''slug'')), view')
             \<and> map_of (folders view') k = Some (row(''is_missing'' := VBool True))
             \<and> (\<forall>k'. k' \<noteq> k \<longrightarrow> map_of (folders view') k' = map_of (folders view) k')
             \<and> files view' = files view
             \<and> messages view' = messages view @ [folder_missing_msg]))
       \<and> (exists_remote client (folder ''folder'') = Inr True
            \<and> exists_remote client (file ''file'') = Inr False
            \<and> file ''id'' = VInt k \<and> map_of (files view) k = Some row \<longrightarrow>
          (\<exists>view'. DownloadFileview_nextcloud_operation_failed client error view =
                     (Inr (RedirectToFolderView (folder ''slug'')), view')
             \<and> map_of (files view') k = Some (row(''is_missing'' := VBool True))
             \<and> (\<forall>k'. k' \<noteq> k \<longrightarrow> map_of (files view') k' = map_of (files view) k')
             \<and> folders view' = folders view
             \<and> messages view' = messages view @ [file_missing_msg]))"
proof (intro conjI impI)
  note fr = related_folder_frame[OF fld]
  assume a: "exists_remote client (folder ''folder'') = Inr False
            \<and> folder ''id'' = VInt k \<and> map_of (folders view) k = Some row"
  from repair_folder[OF fld, of client k row] a
  obtain tbl where t: "repair_missing client file view =
             (Inr (Some folder_missing_msg),
              view1\<lparr>folder_cache := Some (folder(''is_missing'' := VBool True)), folders := tbl\<rparr>)"
      "map_of tbl k = Some (row(''is_missing'' := VBool True))"
      "\<forall>k'. k' \<noteq> k \<longrightarrow> map_of tbl k' = map_of (folders view) k'"
    by blast
  let ?v = "view1\<lparr>folder_cache := Some (folder(''is_missing'' := VBool True)), folders := tbl\<rparr>"
  have "report_and_redirect (Some folder_missing_msg) ?v =
          (Inr (RedirectToFolderView ((folder(''is_missing'' := VBool True)) ''slug'')),
           ?v\<lparr>messages := messages ?v @ [folder_missing_msg]\<rparr>)"
    using report_and_redirect_cached[of ?v "file" "folder(''is_missing'' := VBool True)"
            "Some folder_missing_msg"] fr fattr
    by simp
  then show "\<exists>view'. DownloadFileview_nextcloud_operation_failed client error view =
                     (Inr (RedirectToFolderView (folder ''slug'')), view')
             \<and> map_of (folders view') k = Some (row(''is_missing'' := VBool True))
             \<and> (\<forall>k'. k' \<noteq> k \<longrightarrow> map_of (folders view') k' = map_of (folders view) k')
             \<and> files view' = files view
             \<and> messages view' = messages view @ [folder_missing_msg]"
    using t fr fattr code by (simp add: DownloadFileview_nextcloud_operation_failed_def)
next
  note fr = related_folder_frame[OF fld]
  assume a: "exists_remote client (folder ''folder'') = Inr True
            \<and> exists_remote client (file ''file'') = Inr False
            \<and> file ''id'' = VInt k \<and> map_of (files view) k = Some row"
  from repair_file[OF fld, of client k row] a
  obtain tbl where t: "repair_missing client file view =
             (Inr (Some file_missing_msg),
              view1\<lparr>file_attr := Some (file(''is_missing'' := VBool True)), files := tbl\<rparr>)"
      "map_of tbl k = Some (row(''is_missing'' := VBool True))"
      "\<forall>k'. k' \<noteq> k \<longrightarrow> map_of tbl k' = map_of (files view) k'"
    by blast
  let ?v = "view1\<lparr>file_attr := Some (file(''is_missing'' := VBool True)), files := tbl\<rparr>"
  have "report_and_redirect (Some file_missing_msg) ?v =
          (Inr (RedirectToFolderView (folder ''slug'')),
           ?v\<lparr>messages := messages ?v @ [file_missing_msg]\<rparr>)"
    using report_and_redirect_cached[of ?v "file(''is_missing'' := VBool True)" folder
            "Some file_missing_msg"] fr
    by simp
  then show "\<exists>view'. DownloadFileview_nextcloud_operation_failed client error view =
                     (Inr (RedirectToFolderView (folder ''slug'')), view')
             \<and> map_of (files view') k = Some (row(''is_missing'' := VBool True))
             \<and> (\<forall>k'. k' \<noteq> k \<longrightarrow> map_of (files view') k' = map_of (files view) k')
             \<and> folders view' = folders view
             \<and> messages view' = messages view @ [file_missing_msg]"
    using t fr fattr code by (simp add: DownloadFileview_nextcloud_operation_failed_def)
qed

lemma mixin_catches_with_base_handlers:
  assumes "super_dispatch view = (Inl error, view')"
    and "is_ConnectionError error \<or> is_OperationFailed error"
  shows "\<exists>ctx. NextcloudConnectionViewMixin_dispatch super_dispatch nextcloud_operation_failed view =
           (Inr (TemplateResponse failed_connection_template ctx 424), view')"
  using assms
  by (auto simp: NextcloudConnectionViewMixin_dispatch_def nextcloud_connection_failed_def
      nextcloud_operation_failed_def)


lemma DownloadFileview_connection_failed:
  assumes "DownloadFileview_get client folder_slug file_slug view = (Inl e, view')"
    and "is_ConnectionError e"
  shows "DownloadFileview_dispatch client folder_slug file_slug view =
           (Inr (TemplateResponse failed_connection_template (Some e) 424), view')"
  using assms
  by (simp add: DownloadFileview_dispatch_def NextcloudConnectionViewMixin_dispatch_def
      nextcloud_connection_failed_def)

lemma stored_view_get:
  "DownloadFileview_get client ''minutes'' ''agenda'' stored_view =
     (case download client file_row of
        Inl e \<Rightarrow> (Inl e, stored_view\<lparr>file_attr := Some file_row\<rparr>)
      | Inr file_data \<Rightarrow>
          (Inr (FileResponse file_data (VStr ''agenda.xlsx'')),
           stored_view\<lparr>file_attr := Some file_row\<rparr>))"
  by (simp add: DownloadFileview_get_def get_file_or_404_def stored_view_def
      folder_slug_of_def file_row_def folder_row_def Let_def split: sum.splits)

lemma stored_view_folder:
  "related_folder (stored_view\<lparr>file_attr := Some file_row\<rparr>) file_row =
     (Inr folder_row, stored_view\<lparr>file_attr := Some file_row, folder_cache := Some folder_row\<rparr>)"
  by (simp add: related_folder_def stored_view_def file_row_def)

theorem repair_writes_only_is_missing_witness:
  "file_attr (stored_view\<lparr>file_attr := Some file_row\<rparr>) = Some file_row
   \<and> related_folder (stored_view\<lparr>file_attr := Some file_row\<rparr>) file_row =
       (Inr folder_row, stored_view\<lparr>file_attr := Some file_row, folder_cache := Some folder_row\<rparr>)
   \<and> actual_code (OperationFailed 404) = Some 404
   \<and> exists_remote renamed_client (folder_row ''folder'') = Inr True
   \<and> exists_remote renamed_client (file_row ''file'') = Inr False
   \<and> file_row ''id'' = VInt 7
   \<and> map_of (files (stored_view\<lparr>file_attr := Some file_row\<rparr>)) 7 = Some file_row
   \<and> (\<exists>view'. DownloadFileview_nextcloud_operation_failed renamed_client (OperationFailed 404)
                   (stored_view\<lparr>file_attr := Some file_row\<rparr>) =
                 (Inr (RedirectToFolderView (VStr ''minutes'')), view')
          \<and> map_of (files view') 7 = Some (file_row(''is_missing'' := VBool True))
          \<and> folders view' = [(1, folder_row)]
          \<and> messages view' = [file_missing_msg])
   \<and> exists_remote removed_client (folder_row ''folder'') = Inr False
   \<and> folder_row ''id'' = VInt 1
   \<and> map_of (folders (stored_view\<lparr>file_attr := Some file_row\<rparr>)) 1 = Some folder_row
   \<and> (\<exists>view'. DownloadFileview_nextcloud_operation_failed removed_client (OperationFailed 404)
                   (stored_view\<lparr>file_attr := Some file_row\<rparr>) =
                 (Inr (RedirectToFolderView (VStr ''minutes'')), view')
          \<and> map_of (folders view') 1 = Some (folder_row(''is_missing'' := VBool True))
          \<and> files view' = [(7, file_row)]
          \<and> messages view' = [folder_missing_msg])"
proof -
  let ?view = "stored_view\<lparr>file_attr := Some file_row\<rparr>"
  have fattr: "file_attr ?view = Some file_row" by simp
  have code: "actual_code (OperationFailed 404) = Some 404" by simp
  have there: "exists_remote renamed_client (folder_row ''folder'') = Inr True"
    by (simp add: renamed_client_def folder_row_def)
  have gone: "exists_remote renamed_client (file_row ''file'') = Inr False"
    by (simp add: renamed_client_def file_row_def)
  have removed: "exists_remote removed_client (folder_row ''folder'') = Inr False"
    by (simp add: removed_client_def)
  have pk: "file_row ''id'' = VInt 7" by (simp add: file_row_def)
  have folder_pk: "folder_row ''id'' = VInt 1" by (simp add: folder_row_def)
  have row: "map_of (files ?view) 7 = Some file_row" by (simp add: stored_view_def)
  have folder_stored: "map_of (folders ?view) 1 = Some folder_row" by (simp add: stored_view_def)
  have slug: "folder_row ''slug'' = VStr ''minutes''" by (simp add: folder_row_def)
  have base: "folders ?view = [(1, folder_row)]" "files ?view = [(7, file_row)]"
             "messages ?view = []"
    by (simp_all add: stored_view_def)
  from repair_writes_only_is_missing[where client = renamed_client and k = 7 and row = file_row,
      OF fattr stored_view_folder code]
  have "\<exists>view'. DownloadFileview_nextcloud_operation_failed renamed_client (OperationFailed 404)
                   ?view = (Inr (RedirectToFolderView (folder_row ''slug'')), view')
          \<and> map_of (files view') 7 = Some (file_row(''is_missing'' := VBool True))
          \<and> folders view' = folders ?view
          \<and> messages view' = messages ?view @ [file_missing_msg]"
    using there gone pk row by blast
  then have file_case:
    "\<exists>view'. DownloadFileview_nextcloud_operation_failed renamed_client (OperationFailed 404)
                   ?view = (Inr (RedirectToFolderView (VStr ''minutes'')), view')
          \<and> map_of (files view') 7 = Some (file_row(''is_missing'' := VBool True))
          \<and> folders view' = [(1, folder_row)]
          \<and> messages view' = [file_missing_msg]"
    by (simp add: slug base)
  from repair_writes_only_is_missing[where client = removed_client and k = 1 and row = folder_row,
      OF fattr stored_view_folder code]
  have "\<exists>view'. DownloadFileview_nextcloud_operation_failed removed_client (OperationFailed 404)
                   ?view = (Inr (RedirectToFolderView (folder_row ''slug'')), view')
          \<and> map_of (folders view') 1 = Some (folder_row(''is_missing'' := VBool True))
          \<and> files view' = files ?view
          \<and> messages view' = messages ?view @ [folder_missing_msg]"
    using removed folder_pk folder_stored by blast
  then have folder_case:
    "\<exists>view'. DownloadFileview_nextcloud_operation_failed removed_client (OperationFailed 404)
                   ?view = (Inr (RedirectToFolderView (VStr ''minutes'')), view')
          \<and> map_of (folders view') 1 = Some (folder_row(''is_missing'' := VBool True))
          \<and> files view' = [(7, file_row)]
          \<and> messages view' = [folder_missing_msg]"
    by (simp add: slug base)
  from fattr stored_view_folder code there gone pk row file_case
       removed folder_pk folder_stored folder_case
  show ?thesis by blast
qed

text \<open>
  C9, at the failing input. The download is answered with 404, so \<open>get\<close> raises
  \<open>OperationFailed\<close> and the mixin calls the handler of \<open>DownloadFileview\<close>; the
  handler asks the remote whether the folder exists, and that request raises
  \<open>ConnectionError\<close>. The error is raised inside the \<open>except\<close> clause of
  \<open>dispatch\<close>, where nothing catches it: it leaves \<open>dispatch\<close>, and the response is
  neither the 424 page nor the redirect.
\<close>

theorem download_handler_lets_connection_error_through:
  "download dropping_client file_row = Inl (OperationFailed 404)
   \<and> exists_remote dropping_client (folder_row ''folder'') = Inl RequestsConnectionError
   \<and> fst (DownloadFileview_dispatch dropping_client ''minutes'' ''agenda'' stored_view) =
       Inl RequestsConnectionError"
proof (intro conjI)
  show "download dropping_client file_row = Inl (OperationFailed 404)"
    by (simp add: dropping_client_def)
  show "exists_remote dropping_client (folder_row ''folder'') = Inl RequestsConnectionError"
    by (simp add: dropping_client_def)
  have got: "DownloadFileview_get dropping_client ''minutes'' ''agenda'' stored_view =
               (Inl (OperationFailed 404), stored_view\<lparr>file_attr := Some file_row\<rparr>)"
    by (simp add: stored_view_get dropping_client_def)
  have "repair_missing dropping_client file_row (stored_view\<lparr>file_attr := Some file_row\<rparr>) =
          (Inl RequestsConnectionError,
           stored_view\<lparr>file_attr := Some file_row, folder_cache := Some folder_row\<rparr>)"
    by (simp add: repair_missing_def stored_view_folder dropping_client_def)
  then show "fst (DownloadFileview_dispatch dropping_client ''minutes'' ''agenda'' stored_view) =
          Inl RequestsConnectionError"
    using got
    by (simp add: DownloadFileview_dispatch_def NextcloudConnectionViewMixin_dispatch_def
        DownloadFileview_nextcloud_operation_failed_def)
qed


end
